theory Spec2Isabelle
  imports Complex_Main
begin

text \<open>
  A shallow embedding of the scoring engine (\<open>indicators.py\<close>) and of the score table
  builder, the position selector and the backtest simulator
  (\<open>backtesting_stock_analysis.py\<close>), with the properties of their specification
  proved or refuted over it. Line numbers refer to these two files.
\<close>

section \<open>Data model\<close>

text \<open>
  Dates are day numbers (\<open>timedelta(days=n)\<close> adds \<open>n\<close>). Prices, share counts and
  scores are real numbers standing for the finite floats of the program; rounding
  is not modelled. A price history is the list of the rows of a data frame in index
  order; \<open>Index\<close> is the frame's \<open>Date\<close> index (\<open>day.Index\<close> in \<open>itertuples\<close>).
\<close>

record bar =
  Index :: int
  Open :: real
  High :: real
  Low :: real
  Close :: real
  Volume :: real

text \<open>Exceptions of the program are values; \<open>Inl\<close> of a sum is a raised exception.\<close>

datatype error = KeyError | IndexError | ZeroDivisionError | ValueError | TypeError

definition bindE :: "error + 'a \<Rightarrow> ('a \<Rightarrow> error + 'b) \<Rightarrow> error + 'b" where
  "bindE m f = (case m of Inl e \<Rightarrow> Inl e | Inr v \<Rightarrow> f v)"

text \<open>
  The values of an indicator series are floats that may be NaN (the warm-up rows of
  a rolling or exponentially weighted window). Every ordering comparison with NaN
  is false.
\<close>

datatype fval = NaN | Fin real

fun gt_f :: "fval \<Rightarrow> fval \<Rightarrow> bool" where
  "gt_f (Fin a) (Fin b) = (a > b)"
| "gt_f _ _ = False"

fun lt_f :: "fval \<Rightarrow> fval \<Rightarrow> bool" where
  "lt_f (Fin a) (Fin b) = (a < b)"
| "lt_f _ _ = False"

fun ge_f :: "fval \<Rightarrow> fval \<Rightarrow> bool" where
  "ge_f (Fin a) (Fin b) = (a \<ge> b)"
| "ge_f _ _ = False"

fun le_f :: "fval \<Rightarrow> fval \<Rightarrow> bool" where
  "le_f (Fin a) (Fin b) = (a \<le> b)"
| "le_f _ _ = False"

text \<open>\<open>series.iloc[i]\<close>: a negative position counts from the end, a position out of
  range raises \<open>IndexError\<close>.\<close>

definition iloc :: "'a list \<Rightarrow> int \<Rightarrow> error + 'a" where
  "iloc xs i =
     (if 0 \<le> i \<and> i < int (length xs) then Inr (xs ! nat i)
      else if i < 0 \<and> - int (length xs) \<le> i then Inr (xs ! nat (int (length xs) + i))
      else Inl IndexError)"

text \<open>A price read from a column, as a float to compare with an indicator value.\<close>

definition ilocF :: "real list \<Rightarrow> int \<Rightarrow> error + fval" where
  "ilocF xs i = bindE (iloc xs i) (\<lambda>v. Inr (Fin v))"

text \<open>Comparisons and Python's short-circuit \<open>and\<close> over operands that may raise,
  evaluated left to right.\<close>

definition gtE :: "error + fval \<Rightarrow> error + fval \<Rightarrow> error + bool" where
  "gtE x y = bindE x (\<lambda>a. bindE y (\<lambda>b. Inr (gt_f a b)))"

definition ltE :: "error + fval \<Rightarrow> error + fval \<Rightarrow> error + bool" where
  "ltE x y = bindE x (\<lambda>a. bindE y (\<lambda>b. Inr (lt_f a b)))"

definition andE :: "error + bool \<Rightarrow> error + bool \<Rightarrow> error + bool" where
  "andE x y = bindE x (\<lambda>b. if b then y else Inr False)"

section \<open>The indicator library\<close>

text \<open>
  The analyzers call the \<open>ta\<close> package and pandas' rolling mean, which are not part
  of the repository. Each call is a parameter: a function from the window and the
  input columns to the resulting series, or to the exception the call raises.
\<close>

record ta_lib =
  ema_indicator :: "nat \<Rightarrow> real list \<Rightarrow> error + fval list"
  rsi :: "nat \<Rightarrow> real list \<Rightarrow> error + fval list"
  adx :: "nat \<Rightarrow> bar list \<Rightarrow> error + fval list"
  adx_pos :: "nat \<Rightarrow> bar list \<Rightarrow> error + fval list"
  adx_neg :: "nat \<Rightarrow> bar list \<Rightarrow> error + fval list"
  donchian_channel_hband :: "nat \<Rightarrow> bar list \<Rightarrow> error + fval list"
  donchian_channel_lband :: "nat \<Rightarrow> bar list \<Rightarrow> error + fval list"
  rolling_mean :: "nat \<Rightarrow> real list \<Rightarrow> error + fval list"

section \<open>Indicator analyzers (indicators.py)\<close>

text \<open>An analyzer returns \<open>(signal_score, expected_entry_price, expected_exit_price)\<close>.\<close>

type_synonym signal = "int \<times> real option \<times> real option"

definition enter_at :: "int \<Rightarrow> bar list \<Rightarrow> error + signal" where
  "enter_at score data = bindE (iloc (map Close data) (-1)) (\<lambda>c. Inr (score, Some c, None))"

definition exit_at :: "int \<Rightarrow> bar list \<Rightarrow> error + signal" where
  "exit_at score data = bindE (iloc (map Close data) (-1)) (\<lambda>c. Inr (score, None, Some c))"

definition analyze_ema :: "ta_lib \<Rightarrow> bar list \<Rightarrow> error + signal" where
  "analyze_ema L data =
     bindE (ema_indicator L 20 (map Close data)) (\<lambda>ema_short.
     bindE (ema_indicator L 50 (map Close data)) (\<lambda>ema_long.
       if length data \<ge> 50 then
         bindE (andE (gtE (iloc ema_short (-1)) (iloc ema_long (-1)))
                     (ltE (iloc ema_short (-2)) (iloc ema_long (-2)))) (\<lambda>golden.
         if golden then enter_at 5 data
         else
           bindE (andE (ltE (iloc ema_short (-1)) (iloc ema_long (-1)))
                       (gtE (iloc ema_short (-2)) (iloc ema_long (-2)))) (\<lambda>death.
           if death then exit_at 1 data
           else
             bindE (gtE (iloc ema_short (-1)) (iloc ema_long (-1))) (\<lambda>above.
             if above then enter_at 4 data else exit_at 2 data)))
       else Inr (3, None, None)))"

definition analyze_rsi :: "ta_lib \<Rightarrow> bar list \<Rightarrow> error + signal" where
  "analyze_rsi L data =
     bindE (rsi L 14 (map Close data)) (\<lambda>rsi_series.
       if length data \<ge> 14 then
         bindE (andE (ltE (ilocF (map Close data) (-1)) (ilocF (map Close data) (-2)))
                     (gtE (iloc rsi_series (-1)) (iloc rsi_series (-2)))) (\<lambda>bullish.
         if bullish then enter_at 5 data
         else
           bindE (andE (gtE (ilocF (map Close data) (-1)) (ilocF (map Close data) (-2)))
                       (ltE (iloc rsi_series (-1)) (iloc rsi_series (-2)))) (\<lambda>bearish.
           if bearish then exit_at 1 data
           else
             bindE (ltE (iloc rsi_series (-1)) (Inr (Fin 30))) (\<lambda>oversold.
             if oversold then enter_at 4 data
             else
               bindE (gtE (iloc rsi_series (-1)) (Inr (Fin 70))) (\<lambda>overbought.
               if overbought then exit_at 2 data else Inr (3, None, None)))))
       else Inr (3, None, None))"

definition analyze_adx :: "ta_lib \<Rightarrow> bar list \<Rightarrow> error + signal" where
  "analyze_adx L data =
     bindE (adx L 14 data) (\<lambda>adx_value.
     bindE (adx_pos L 14 data) (\<lambda>pdi.
     bindE (adx_neg L 14 data) (\<lambda>ndi.
       if length data \<ge> 14 then
         bindE (gtE (iloc adx_value (-1)) (Inr (Fin 25))) (\<lambda>strong.
         if strong then
           bindE (gtE (iloc pdi (-1)) (iloc ndi (-1))) (\<lambda>upward.
           if upward then enter_at 5 data else exit_at 1 data)
         else
           bindE (ltE (iloc adx_value (-1)) (Inr (Fin 20))) (\<lambda>weak.
           if weak then Inr (3, None, None) else Inr (3, None, None)))
       else Inr (3, None, None))))"

definition analyze_donchian :: "ta_lib \<Rightarrow> bar list \<Rightarrow> error + signal" where
  "analyze_donchian L data =
     bindE (donchian_channel_hband L 20 data) (\<lambda>high_band.
     bindE (donchian_channel_lband L 20 data) (\<lambda>low_band.
       if length data \<ge> 20 then
         bindE (gtE (ilocF (map Close data) (-1)) (iloc high_band (-2))) (\<lambda>breakout.
         if breakout then enter_at 5 data
         else
           bindE (ltE (ilocF (map Close data) (-1)) (iloc low_band (-2))) (\<lambda>breakdown.
           if breakdown then exit_at 1 data else Inr (3, None, None)))
       else Inr (3, None, None)))"

text \<open>
  \<open>data['Volume']\<close> (line 157) raises \<open>KeyError\<close> on a frame without that column:
  \<open>get_stock_data\<close> requires Open, High, Low and Close only, so the frames a caller
  passes need not carry a Volume. The analyzer therefore takes the columns of the
  frame beside its rows; the columns the other analyzers read are the required ones.
\<close>

definition analyze_volume :: "ta_lib \<Rightarrow> string list \<Rightarrow> bar list \<Rightarrow> error + signal" where
  "analyze_volume L cols data =
     (if ''Volume'' \<notin> set cols then Inl KeyError
      else
       bindE (rolling_mean L 20 (map Volume data)) (\<lambda>average_volume.
         if length data \<ge> 20 then
           bindE (andE (gtE (ilocF (map Close data) (-1)) (ilocF (map Close data) (-2)))
                       (gtE (ilocF (map Volume data) (-1)) (iloc average_volume (-1)))) (\<lambda>bullish.
           if bullish then enter_at 5 data
           else
             bindE (andE (ltE (ilocF (map Close data) (-1)) (ilocF (map Close data) (-2)))
                         (gtE (ilocF (map Volume data) (-1)) (iloc average_volume (-1)))) (\<lambda>bearish.
             if bearish then exit_at 1 data else Inr (3, None, None)))
         else Inr (3, None, None)))"

section \<open>Price files (get_stock_data)\<close>

text \<open>
  The data folder is the list of its CSV files in listing order, each under its
  symbol (the file name without \<open>.csv\<close>), with the columns it has and its rows.
  A frame is \<open>None\<close> for the column-less \<open>pd.DataFrame()\<close> that \<open>get_stock_data\<close>
  returns for a missing or incomplete file, and \<open>Some\<close> of the rows otherwise.
\<close>

record csv_file =
  columns :: "string list"
  rows :: "bar list"

type_synonym folder = "(string \<times> csv_file) list"

type_synonym frame = "bar list option"

definition get_stock_data :: "string \<Rightarrow> folder \<Rightarrow> frame" where
  "get_stock_data symbol data_folder =
     (case map_of data_folder symbol of
        Some file \<Rightarrow>
          (let required_columns = [''Open'', ''High'', ''Low'', ''Close''];
               missing_columns = filter (\<lambda>col. col \<notin> set (columns file)) required_columns
           in if missing_columns \<noteq> [] then None else Some (rows file))
      | None \<Rightarrow> None)"

definition frame_rows :: "frame \<Rightarrow> bar list" where
  "frame_rows stock_data = (case stock_data of None \<Rightarrow> [] | Some bars \<Rightarrow> bars)"

text \<open>\<open>stock_data.empty\<close>\<close>

definition frame_empty :: "frame \<Rightarrow> bool" where
  "frame_empty stock_data = (frame_rows stock_data = [])"

section \<open>Score table builder (load_and_score_stock_data)\<close>

record score_row =
  Date :: int
  Symbol :: string
  Score :: real

text \<open>Line 98: the rows whose index lies in the test range.\<close>

definition in_range :: "int \<Rightarrow> int \<Rightarrow> bar list \<Rightarrow> bar list" where
  "in_range start_date end_date bars =
     filter (\<lambda>b. Index b \<ge> start_date \<and> Index b \<le> end_date) bars"

text \<open>\<open>stock_data.loc[:date]\<close> on an index in increasing order: the rows up to and
  including \<open>date\<close>.\<close>

definition loc_upto :: "bar list \<Rightarrow> int \<Rightarrow> bar list" where
  "loc_upto stock_data date = filter (\<lambda>b. Index b \<le> date) stock_data"

text \<open>The columns of the frame that \<open>get_stock_data\<close> returns for a symbol.\<close>

definition frame_columns :: "string \<Rightarrow> folder \<Rightarrow> string list" where
  "frame_columns symbol data_folder =
     (case map_of data_folder symbol of Some file \<Rightarrow> columns file | None \<Rightarrow> [])"

text \<open>The body of the \<open>try\<close> (lines 107 to 123): the row to append, if any, or the
  exception raised.\<close>

definition score_on ::
  "ta_lib \<Rightarrow> string \<Rightarrow> string list \<Rightarrow> bar list \<Rightarrow> int \<Rightarrow> error + score_row option" where
  "score_on L symbol cols stock_data date =
     (if length (loc_upto stock_data date) \<ge> 50 then
        bindE (analyze_ema L (loc_upto stock_data date)) (\<lambda>(ema_score, _, _).
        bindE (analyze_rsi L (loc_upto stock_data date)) (\<lambda>(rsi_score, _, _).
        bindE (analyze_adx L (loc_upto stock_data date)) (\<lambda>(adx_score, _, _).
        bindE (analyze_donchian L (loc_upto stock_data date)) (\<lambda>(donchian_score, _, _).
        bindE (analyze_volume L cols (loc_upto stock_data date)) (\<lambda>(volume_score, _, _).
          Inr (Some \<lparr>Date = date, Symbol = symbol,
                      Score = real_of_int (ema_score + rsi_score + adx_score
                                           + donchian_score + volume_score) / 5\<rparr>))))))
      else Inr None)"

text \<open>The builder's state: the rows collected so far, and the caught errors it printed
  (symbol, date, exception).\<close>

type_synonym build_state = "score_row list \<times> (string \<times> int \<times> error) list"

text \<open>Lines 105 to 125: the loop over the dates of one instrument, with the
  \<open>try\<close>/\<open>except\<close> inside it.\<close>

fun score_days ::
  "ta_lib \<Rightarrow> string \<Rightarrow> string list \<Rightarrow> bar list \<Rightarrow> bar list \<Rightarrow> build_state \<Rightarrow> build_state" where
  "score_days L symbol cols stock_data [] st = st"
| "score_days L symbol cols stock_data (day # days) (stock_scores, printed) =
     score_days L symbol cols stock_data days
       (case score_on L symbol cols stock_data (Index day) of
          Inl e \<Rightarrow> (stock_scores, printed @ [(symbol, Index day, e)])
        | Inr None \<Rightarrow> (stock_scores, printed)
        | Inr (Some row) \<Rightarrow> (stock_scores @ [row], printed))"

text \<open>
  Lines 93 to 125: the loop over the files. The filter of line 98 stands outside the
  \<open>try\<close>. On the column-less frame that \<open>get_stock_data\<close> returns for a file
  lacking a required column, the comparison of its integer index with the date
  string raises \<open>TypeError\<close> (pandas 2), which ends the build.
\<close>

fun score_files ::
  "ta_lib \<Rightarrow> folder \<Rightarrow> int \<Rightarrow> int \<Rightarrow> string list \<Rightarrow> build_state \<Rightarrow> error + build_state" where
  "score_files L data_folder start_date end_date [] st = Inr st"
| "score_files L data_folder start_date end_date (symbol # stock_files) st =
     (case get_stock_data symbol data_folder of
        None \<Rightarrow> Inl TypeError
      | Some bars \<Rightarrow>
          (let stock_data = in_range start_date end_date bars
           in if length stock_data < 50 then
                score_files L data_folder start_date end_date stock_files st
              else
                score_files L data_folder start_date end_date stock_files
                  (score_days L symbol (frame_columns symbol data_folder)
                     stock_data stock_data st)))"

definition load_and_score_stock_data ::
  "ta_lib \<Rightarrow> folder \<Rightarrow> int \<Rightarrow> int \<Rightarrow> error + build_state" where
  "load_and_score_stock_data L data_folder start_date end_date =
     score_files L data_folder start_date end_date (map fst data_folder) ([], [])"

section \<open>Position selector (get_best_stock)\<close>

text \<open>
  \<open>sort_values(by='Score', ascending=False)\<close>: rows in decreasing score. Which of
  several rows of equal score comes first is decided by pandas' default sort
  (numpy's quicksort, which is not stable) and is not modelled: the table order
  kept here (a stable sort) is one possible order, not the program's. No property
  below is stated for a date on which two instruments share the maximum score.
\<close>

definition sort_values_desc :: "score_row list \<Rightarrow> score_row list" where
  "sort_values_desc day_scores = sort_key (\<lambda>r. - Score r) day_scores"

definition get_best_stock :: "int \<Rightarrow> score_row list \<Rightarrow> string option \<times> real option" where
  "get_best_stock date stock_scores =
     (let day_scores = filter (\<lambda>r. Date r = date) stock_scores
      in if day_scores \<noteq> [] then
           (let best_stock = hd (sort_values_desc day_scores)
            in (Some (Symbol best_stock), Some (Score best_stock)))
         else (None, None))"

section \<open>Backtest simulator (backtest)\<close>

record ledger_entry =
  entry_Date :: int
  entry_Symbol :: "string option"
  Action :: string
  Shares :: real
  Exit_Price :: real
  Investment_Value :: real

text \<open>The local variables of \<open>backtest\<close> that live across iterations. \<open>entry_price\<close>
  is unbound in the program until the first entry; it is never read before.\<close>

record bt_state =
  investment_log :: "ledger_entry list"
  current_investment :: real
  current_stock :: "string option"
  current_shares :: real
  entry_price :: real
  current_date :: int

record bt_params =
  stock_scores :: "score_row list"
  stop_loss :: real
  reevaluation_period :: int
  data_folder :: folder

text \<open>\<open>not best_stock\<close>: \<open>None\<close> and the empty string are falsy.\<close>

definition falsy :: "string option \<Rightarrow> bool" where
  "falsy best_stock = (best_stock = None \<or> best_stock = Some [])"

text \<open>The symbol as the f-string of the file name renders it.\<close>

definition py_str :: "string option \<Rightarrow> string" where
  "py_str symbol = (case symbol of None \<Rightarrow> ''None'' | Some s \<Rightarrow> s)"

text \<open>\<open>stock_data.loc[stock_data.index == date, 'Open'].values[0]\<close>: \<open>KeyError\<close> on the
  column-less frame, \<open>IndexError\<close> when no row has that date.\<close>

definition open_at :: "frame \<Rightarrow> int \<Rightarrow> error + real" where
  "open_at stock_data date =
     (case stock_data of
        None \<Rightarrow> Inl KeyError
      | Some bars \<Rightarrow> iloc (map Open (filter (\<lambda>b. Index b = date) bars)) 0)"

text \<open>\<open>stock_data.loc[a:b]\<close> on an index in increasing order: both ends included.\<close>

definition loc_slice :: "frame \<Rightarrow> int \<Rightarrow> int \<Rightarrow> bar list" where
  "loc_slice stock_data a b = filter (\<lambda>d. a \<le> Index d \<and> Index d \<le> b) (frame_rows stock_data)"

text \<open>Lines 183 to 187. The division is that of the reals; an opening price of 0, on
  which the program's float division gives an infinity or NaN, is outside the model.\<close>

definition enter_or_switch :: "string option \<Rightarrow> frame \<Rightarrow> bt_state \<Rightarrow> error + bt_state" where
  "enter_or_switch best_stock stock_data s =
     (if current_stock s \<noteq> best_stock then
        bindE (open_at stock_data (current_date s)) (\<lambda>price.
          Inr (s\<lparr>entry_price := price,
                 current_shares := current_investment s / price,
                 current_stock := best_stock\<rparr>))
      else Inr s)"

text \<open>Lines 192 to 207: the body of the stop-loss branch, up to its \<open>break\<close>.\<close>

definition stop_loss_exit :: "bt_params \<Rightarrow> bar \<Rightarrow> bt_state \<Rightarrow> error + (bt_state \<times> frame)" where
  "stop_loss_exit P day s =
     (let exit_price = entry_price s * (1 - stop_loss P);
          investment = current_shares s * exit_price;
          appended = investment_log s @
                  [\<lparr>entry_Date = Index day, entry_Symbol = current_stock s,
                    Action = ''Stop-Loss'', Shares = current_shares s,
                    Exit_Price = exit_price, Investment_Value = investment\<rparr>];
          best_stock = fst (get_best_stock (Index day) (stock_scores P));
          stock_data = get_stock_data (py_str best_stock) (data_folder P)
      in bindE (open_at stock_data (Index day)) (\<lambda>price.
           Inr (s\<lparr>investment_log := appended,
                  current_investment := investment,
                  entry_price := price,
                  current_shares := investment / price,
                  current_stock := best_stock\<rparr>, stock_data)))"

text \<open>Lines 190 to 208: the scan of the days of the period.\<close>

fun monitor :: "bt_params \<Rightarrow> bar list \<Rightarrow> bt_state \<times> frame \<Rightarrow> error + (bt_state \<times> frame)" where
  "monitor P [] st = Inr st"
| "monitor P (day # days) (s, stock_data) =
     (if Low day \<le> entry_price s * (1 - stop_loss P) then stop_loss_exit P day s
      else monitor P days (s, stock_data))"

text \<open>Lines 210 to 222.\<close>

definition reevaluate :: "bt_params \<Rightarrow> int \<Rightarrow> bt_state \<times> frame \<Rightarrow> error + bt_state" where
  "reevaluate P reevaluation_end_date st =
     (case st of (s, stock_data) \<Rightarrow>
        bindE (open_at stock_data reevaluation_end_date) (\<lambda>reevaluation_price.
          Inr (s\<lparr>current_investment := current_shares s * reevaluation_price,
                 investment_log := investment_log s @
                   [\<lparr>entry_Date = reevaluation_end_date, entry_Symbol = current_stock s,
                     Action = ''Reevaluate'', Shares = current_shares s,
                     Exit_Price = reevaluation_price,
                     Investment_Value = current_shares s * reevaluation_price\<rparr>],
                 current_date := current_date s + reevaluation_period P\<rparr>)))"

text \<open>Lines 171 to 223: one iteration of the \<open>while\<close> loop.\<close>

definition backtest_step :: "bt_params \<Rightarrow> bt_state \<Rightarrow> error + bt_state" where
  "backtest_step P s =
     (let best_stock = fst (get_best_stock (current_date s) (stock_scores P))
      in if falsy best_stock then
           Inr (s\<lparr>current_date := current_date s + reevaluation_period P\<rparr>)
         else
           (let stock_data = get_stock_data (py_str best_stock) (data_folder P)
            in if frame_empty stock_data then
                 Inr (s\<lparr>current_date := current_date s + reevaluation_period P\<rparr>)
               else
                 bindE (enter_or_switch best_stock stock_data s) (\<lambda>s1.
                 bindE (monitor P (loc_slice stock_data (current_date s)
                                     (current_date s + reevaluation_period P))
                          (s1, stock_data)) (\<lambda>st2.
                 reevaluate P (current_date s + reevaluation_period P) st2))))"

text \<open>\<open>stock_scores['Date'].max()\<close> and \<open>.min()\<close> of a table with rows.\<close>

definition max_date :: "score_row list \<Rightarrow> int" where
  "max_date table = Max (set (map Date table))"

definition min_date :: "score_row list \<Rightarrow> int" where
  "min_date table = Min (set (map Date table))"

text \<open>Lines 170 to 223: the \<open>while\<close> loop. It need not terminate (a negative period
  walks backwards for ever), so its result is optional; an exception ends it.\<close>

partial_function (option) backtest_loop :: "bt_params \<Rightarrow> bt_state \<Rightarrow> (error + bt_state) option" where
  "backtest_loop P s =
     (if current_date s \<le> max_date (stock_scores P) then
        (case backtest_step P s of
           Inl e \<Rightarrow> Some (Inl e)
         | Inr s' \<Rightarrow> backtest_loop P s')
      else Some (Inr s))"

declare backtest_loop.simps [code]

text \<open>
  \<open>backtest\<close>. A table is a frame that has its three columns; with no rows its
  minimum date is NaT and the loop is not entered. (The column-less frame that
  \<open>pd.DataFrame\<close> builds from an empty list of rows is not a table in this sense:
  line 166 raises \<open>KeyError\<close> on it.) Line 168 divides by the period to size the
  progress bar, before the loop starts.
\<close>

definition initial_state :: "score_row list \<Rightarrow> real \<Rightarrow> bt_state" where
  "initial_state table initial_investment =
     \<lparr>investment_log = [], current_investment = initial_investment,
      current_stock = None, current_shares = 0, entry_price = 0,
      current_date = min_date table\<rparr>"

definition backtest ::
  "score_row list \<Rightarrow> real \<Rightarrow> real \<Rightarrow> int \<Rightarrow> folder \<Rightarrow> (error + ledger_entry list) option" where
  "backtest table initial_investment stop_loss_pct period folder =
     (if table = [] then Some (Inr [])
      else if period = 0 then Some (Inl ZeroDivisionError)
      else
        map_option (map_sum id investment_log)
          (backtest_loop
             \<lparr>stock_scores = table, stop_loss = stop_loss_pct,
              reevaluation_period = period, data_folder = folder\<rparr>
             (initial_state table initial_investment)))"

section \<open>Reference inputs\<close>

text \<open>Concrete libraries, histories, tables and folders on which the properties
  below are evaluated.\<close>

definition returns :: "error + 'a \<Rightarrow> bool" where
  "returns m = (case m of Inl e \<Rightarrow> False | Inr v \<Rightarrow> True)"

definition const_series :: "fval \<Rightarrow> 'a list \<Rightarrow> error + fval list" where
  "const_series v xs = Inr (replicate (length xs) v)"

text \<open>A library that never raises: every series is NaN throughout.\<close>

definition lib_quiet :: ta_lib where
  "lib_quiet =
     \<lparr>ema_indicator = (\<lambda>w. const_series NaN), rsi = (\<lambda>w. const_series NaN),
      adx = (\<lambda>w. const_series NaN), adx_pos = (\<lambda>w. const_series NaN),
      adx_neg = (\<lambda>w. const_series NaN),
      donchian_channel_hband = (\<lambda>w. const_series NaN),
      donchian_channel_lband = (\<lambda>w. const_series NaN),
      rolling_mean = (\<lambda>w. const_series NaN)\<rparr>"

text \<open>
  The \<open>ta\<close> package, as far as the lengths go on which its ADX indicator raises for a
  window \<open>w\<close>: the constructor allocates arrays of \<open>len - (w - 1)\<close> entries
  (\<open>ValueError\<close> for a negative size, \<open>IndexError\<close> on writing entry 0 of an empty
  array), and \<open>adx()\<close> writes entry \<open>w\<close> of such an array (\<open>IndexError\<close> on fewer than
  \<open>2 * w\<close> rows). The exponential and rolling windows of the other indicators return on
  every length. The values of the series are not modelled: each is NaN throughout.
\<close>

definition ta_constructor :: "nat \<Rightarrow> bar list \<Rightarrow> error + unit" where
  "ta_constructor w data =
     (if length data + 1 < w then Inl ValueError
      else if length data < w then Inl IndexError
      else Inr ())"

definition lib_ta_lengths :: ta_lib where
  "lib_ta_lengths =
     lib_quiet\<lparr>adx := (\<lambda>w data. bindE (ta_constructor w data) (\<lambda>_.
                   if length data < 2 * w then Inl IndexError else const_series NaN data)),
               adx_pos := (\<lambda>w data. bindE (ta_constructor w data) (\<lambda>_. const_series NaN data)),
               adx_neg := (\<lambda>w data. bindE (ta_constructor w data) (\<lambda>_. const_series NaN data))\<rparr>"

text \<open>A library with constant ADX, +DI and -DI series.\<close>

definition lib_adx_const :: "real \<Rightarrow> real \<Rightarrow> real \<Rightarrow> ta_lib" where
  "lib_adx_const a p n =
     lib_quiet\<lparr>adx := (\<lambda>w. const_series (Fin a)), adx_pos := (\<lambda>w. const_series (Fin p)),
               adx_neg := (\<lambda>w. const_series (Fin n))\<rparr>"

definition flat_bar :: "nat \<Rightarrow> bar" where
  "flat_bar i = \<lparr>Index = int i, Open = 100, High = 100, Low = 100, Close = 100, Volume = 1000\<rparr>"

text \<open>\<open>n\<close> bars on the days 1 to \<open>n\<close>, every price 100.\<close>

definition flat_bars :: "nat \<Rightarrow> bar list" where
  "flat_bars n = map flat_bar [1..<Suc n]"

section \<open>Notions used to state the properties\<close>

text \<open>The stop price of the position held, the first day of a list of days whose low
  breaches it, and the two kinds of ledger entry the simulator writes.\<close>

definition stop_price :: "bt_params \<Rightarrow> bt_state \<Rightarrow> real" where
  "stop_price P s = entry_price s * (1 - stop_loss P)"

definition first_breach :: "bt_params \<Rightarrow> bt_state \<Rightarrow> bar list \<Rightarrow> bar option" where
  "first_breach P s days = find (\<lambda>day. Low day \<le> stop_price P s) days"

definition stop_loss_entry :: "bt_params \<Rightarrow> bt_state \<Rightarrow> bar \<Rightarrow> ledger_entry" where
  "stop_loss_entry P s day =
     \<lparr>entry_Date = Index day, entry_Symbol = current_stock s, Action = ''Stop-Loss'',
      Shares = current_shares s, Exit_Price = stop_price P s,
      Investment_Value = current_shares s * stop_price P s\<rparr>"

definition reevaluate_entry :: "bt_state \<Rightarrow> int \<Rightarrow> real \<Rightarrow> ledger_entry" where
  "reevaluate_entry s date price =
     \<lparr>entry_Date = date, entry_Symbol = current_stock s, Action = ''Reevaluate'',
      Shares = current_shares s, Exit_Price = price,
      Investment_Value = current_shares s * price\<rparr>"

definition ledger_actions :: "string set" where
  "ledger_actions = {''Stop-Loss'', ''Reevaluate''}"

text \<open>Price files of the reference runs.\<close>

definition all_columns :: "string list" where
  "all_columns = [''Open'', ''High'', ''Low'', ''Close'', ''Volume'']"

definition day_bar :: "int \<Rightarrow> real \<Rightarrow> real \<Rightarrow> bar" where
  "day_bar d op lo = \<lparr>Index = d, Open = op, High = op, Low = lo, Close = op, Volume = 1000\<rparr>"

text \<open>Score tables, folders and states of the reference runs.\<close>

definition table1 :: "score_row list" where
  "table1 = [\<lparr>Date = 1, Symbol = ''A'', Score = 4\<rparr>, \<lparr>Date = 10, Symbol = ''B'', Score = 18 / 5\<rparr>]"

definition folder1 :: folder where
  "folder1 =
     [(''A'', \<lparr>columns = all_columns,
              rows = [day_bar 1 100 99, day_bar 10 96 90, day_bar 15 92 91]\<rparr>),
      (''B'', \<lparr>columns = all_columns,
              rows = [day_bar 10 50 49, day_bar 15 55 54]\<rparr>)]"

definition params1 :: bt_params where
  "params1 = \<lparr>stock_scores = table1, stop_loss = 5 / 100, reevaluation_period = 14,
              data_folder = folder1\<rparr>"

definition table2 :: "score_row list" where
  "table2 = [\<lparr>Date = 1, Symbol = ''A'', Score = 4\<rparr>, \<lparr>Date = 15, Symbol = ''B'', Score = 4\<rparr>]"

definition folder2 :: folder where
  "folder2 =
     [(''A'', \<lparr>columns = all_columns, rows = [day_bar 1 100 99, day_bar 15 110 109]\<rparr>),
      (''B'', \<lparr>columns = all_columns, rows = [day_bar 15 50 49, day_bar 29 60 59]\<rparr>)]"

definition params2 :: bt_params where
  "params2 = \<lparr>stock_scores = table2, stop_loss = 5 / 100, reevaluation_period = 14,
              data_folder = folder2\<rparr>"

definition entered :: "bt_state \<Rightarrow> string \<Rightarrow> real \<Rightarrow> real \<Rightarrow> bt_state" where
  "entered s symbol price shares =
     s\<lparr>entry_price := price, current_shares := shares, current_stock := Some symbol\<rparr>"

definition rows_A1 :: "bar list" where
  "rows_A1 = [day_bar 1 100 99, day_bar 10 96 90, day_bar 15 92 91]"

definition rows_B1 :: "bar list" where
  "rows_B1 = [day_bar 10 50 49, day_bar 15 55 54]"

definition folder_A1 :: folder where
  "folder_A1 = [(''A'', \<lparr>columns = all_columns, rows = rows_A1\<rparr>)]"

definition rows_A6 :: "bar list" where
  "rows_A6 = [day_bar 1 100 80, day_bar 10 96 90, day_bar 15 92 91, day_bar 25 90 10]"

definition folder_no_end :: folder where
  "folder_no_end =
     [(''A'', \<lparr>columns = all_columns, rows = [day_bar 1 100 99, day_bar 16 110 109]\<rparr>)]"

definition folder_no_entry :: folder where
  "folder_no_entry =
     [(''A'', \<lparr>columns = all_columns, rows = [day_bar 2 100 99, day_bar 15 110 109]\<rparr>)]"

definition folder_no_breach_day :: folder where
  "folder_no_breach_day =
     [(''A'', \<lparr>columns = all_columns,
              rows = [day_bar 1 100 99, day_bar 10 96 90, day_bar 15 92 91]\<rparr>),
      (''B'', \<lparr>columns = all_columns,
              rows = [day_bar 11 50 49, day_bar 15 55 54]\<rparr>)]"

definition table_A :: "score_row list" where
  "table_A = [\<lparr>Date = 1, Symbol = ''A'', Score = 4\<rparr>]"

text \<open>
  The score table builder, instrument by instrument and date by date: the rows of an
  instrument that lie in the test range, the rows appended and the errors printed
  at one date, and their concatenation over the dates of one instrument. A folder is
  complete when each of its files has the required columns.
\<close>

definition complete_files :: "folder \<Rightarrow> bool" where
  "complete_files folder = list_all (\<lambda>symbol. get_stock_data symbol folder \<noteq> None) (map fst folder)"

definition range_frame :: "folder \<Rightarrow> int \<Rightarrow> int \<Rightarrow> string \<Rightarrow> bar list" where
  "range_frame folder start_date end_date symbol =
     in_range start_date end_date (frame_rows (get_stock_data symbol folder))"

definition emitted ::
  "ta_lib \<Rightarrow> string \<Rightarrow> string list \<Rightarrow> bar list \<Rightarrow> int \<Rightarrow> score_row list" where
  "emitted L symbol cols stock_data date =
     (case score_on L symbol cols stock_data date of Inr (Some row) \<Rightarrow> [row] | _ \<Rightarrow> [])"

definition caught ::
  "ta_lib \<Rightarrow> string \<Rightarrow> string list \<Rightarrow> bar list \<Rightarrow> int \<Rightarrow> (string \<times> int \<times> error) list" where
  "caught L symbol cols stock_data date =
     (case score_on L symbol cols stock_data date of
        Inl e \<Rightarrow> [(symbol, date, e)] | Inr _ \<Rightarrow> [])"

definition instrument_rows :: "ta_lib \<Rightarrow> folder \<Rightarrow> int \<Rightarrow> int \<Rightarrow> string \<Rightarrow> score_row list" where
  "instrument_rows L folder start_date end_date symbol =
     (if length (range_frame folder start_date end_date symbol) < 50 then []
      else concat (map (\<lambda>day. emitted L symbol (frame_columns symbol folder)
                                 (range_frame folder start_date end_date symbol) (Index day))
                     (range_frame folder start_date end_date symbol)))"

definition instrument_errors ::
  "ta_lib \<Rightarrow> folder \<Rightarrow> int \<Rightarrow> int \<Rightarrow> string \<Rightarrow> (string \<times> int \<times> error) list" where
  "instrument_errors L folder start_date end_date symbol =
     (if length (range_frame folder start_date end_date symbol) < 50 then []
      else concat (map (\<lambda>day. caught L symbol (frame_columns symbol folder)
                                 (range_frame folder start_date end_date symbol) (Index day))
                     (range_frame folder start_date end_date symbol)))"

text \<open>
  Inputs of the builder: a library whose RSI computation raises on a history of
  exactly \<open>n\<close> rows and one whose RSI computation raises when the latest close is 0;
  folders of one file of flat bars, with all columns, without Volume, without Low;
  flat bars with the close of one day set to 0, and with every price after a day
  replaced.
\<close>

definition lib_fail_at :: "nat \<Rightarrow> ta_lib" where
  "lib_fail_at n =
     lib_quiet\<lparr>rsi := (\<lambda>w closes. if length closes = n then Inl ValueError
                                  else const_series NaN closes)\<rparr>"

definition lib_fail_on_zero :: ta_lib where
  "lib_fail_on_zero =
     lib_quiet\<lparr>rsi := (\<lambda>w closes. if closes \<noteq> [] \<and> last closes = 0 then Inl ZeroDivisionError
                                  else const_series NaN closes)\<rparr>"

definition flat_folder :: "string \<Rightarrow> nat \<Rightarrow> folder" where
  "flat_folder symbol n = [(symbol, \<lparr>columns = all_columns, rows = flat_bars n\<rparr>)]"

definition no_volume_folder :: "string \<Rightarrow> nat \<Rightarrow> folder" where
  "no_volume_folder symbol n =
     [(symbol, \<lparr>columns = [''Open'', ''High'', ''Low'', ''Close''], rows = flat_bars n\<rparr>)]"

definition no_low_folder :: "string \<Rightarrow> nat \<Rightarrow> folder" where
  "no_low_folder symbol n =
     [(symbol, \<lparr>columns = [''Open'', ''High'', ''Close'', ''Volume''], rows = flat_bars n\<rparr>)]"

definition zero_close_at :: "int \<Rightarrow> bar list \<Rightarrow> bar list" where
  "zero_close_at d bars = map (\<lambda>b. if Index b = d then b\<lparr>Close := 0\<rparr> else b) bars"

definition two_files :: folder where
  "two_files =
     [(''A'', \<lparr>columns = all_columns, rows = zero_close_at 50 (flat_bars 51)\<rparr>),
      (''B'', \<lparr>columns = all_columns, rows = flat_bars 50\<rparr>)]"

definition spike_after :: "int \<Rightarrow> bar list \<Rightarrow> bar list" where
  "spike_after d bars =
     map (\<lambda>b. if Index b > d then b\<lparr>Open := 200, High := 200, Low := 200, Close := 200\<rparr> else b)
       bars"

definition spiked_folder :: "string \<Rightarrow> nat \<Rightarrow> int \<Rightarrow> folder" where
  "spiked_folder symbol n d =
     [(symbol, \<lparr>columns = all_columns, rows = spike_after d (flat_bars n)\<rparr>)]"

text \<open>A library whose 20-period EMA is the close itself and whose 50-period EMA is 150
  throughout, and the tables built with it from 60 flat bars and from the same bars
  with every price after day 55 replaced.\<close>

definition lib_close_ema :: ta_lib where
  "lib_close_ema =
     lib_quiet\<lparr>ema_indicator :=
       (\<lambda>w closes. Inr (map (\<lambda>c. Fin (if w = 20 then c else 150)) closes))\<rparr>"

definition flat_table :: "score_row list" where
  "flat_table = map (\<lambda>d. \<lparr>Date = d, Symbol = ''A'', Score = 14 / 5\<rparr>)
                  [50, 51, 52, 53, 54, 55, 56, 57, 58, 59, 60]"

definition spiked_table :: "score_row list" where
  "spiked_table =
     map (\<lambda>d. \<lparr>Date = d, Symbol = ''A'', Score = 14 / 5\<rparr>) [50, 51, 52, 53, 54, 55]
     @ [\<lparr>Date = 56, Symbol = ''A'', Score = 17 / 5\<rparr>]
     @ map (\<lambda>d. \<lparr>Date = d, Symbol = ''A'', Score = 16 / 5\<rparr>) [57, 58, 59, 60]"

section \<open>Basic facts\<close>

lemma bindE_Inr [simp]: "bindE (Inr v) f = f v"
  by (simp add: bindE_def)

lemma bindE_Inl [simp]: "bindE (Inl e) f = Inl e"
  by (simp add: bindE_def)

lemma returnsE: "returns m \<Longrightarrow> \<exists>v. m = Inr v"
  by (cases m) (simp_all add: returns_def)

lemma iloc_last: "xs \<noteq> [] \<Longrightarrow> iloc xs (-1) = Inr (last xs)"
  by (cases xs) (auto simp: iloc_def last_conv_nth)

lemma length_flat_bars [simp]: "length (flat_bars n) = n"
  by (simp add: flat_bars_def)

lemma flat_bars_nonempty [simp]: "0 < n \<Longrightarrow> flat_bars n \<noteq> []"
  by (cases n) (simp_all add: flat_bars_def)

lemma last_flat_bars: "0 < n \<Longrightarrow> last (flat_bars n) = flat_bar n"
  by (cases n) (simp_all add: flat_bars_def)

section \<open>Indicator analyzers\<close>

text \<open>
  Every analyzer calls the indicator library before it checks the length of the
  history. The four analyzers whose library calls are exponential or rolling windows
  return the neutral score on a history shorter than their minimum whenever those
  calls return.
\<close>

lemma siblings_short_history_neutral:
  "(length data < 50 \<and> returns (ema_indicator L 20 (map Close data))
      \<and> returns (ema_indicator L 50 (map Close data))
      \<longrightarrow> analyze_ema L data = Inr (3, None, None))
   \<and> (length data < 14 \<and> returns (rsi L 14 (map Close data))
      \<longrightarrow> analyze_rsi L data = Inr (3, None, None))
   \<and> (length data < 20 \<and> returns (donchian_channel_hband L 20 data)
      \<and> returns (donchian_channel_lband L 20 data)
      \<longrightarrow> analyze_donchian L data = Inr (3, None, None))
   \<and> (length data < 20 \<and> ''Volume'' \<in> set cols \<and> returns (rolling_mean L 20 (map Volume data))
      \<longrightarrow> analyze_volume L cols data = Inr (3, None, None))"
  by (auto simp: analyze_ema_def analyze_rsi_def analyze_donchian_def
      analyze_volume_def dest!: returnsE)

text \<open>
  C5 (for every history shorter than an analyzer's minimum length the analyzer
  returns the neutral score 3 with both prices null, normally) does not hold of the
  ADX analyzer. On a history of 10 bars, shorter than its minimum of 14, it raises:
  the indicator is built at line 103, before the length check of line 108, and the
  library fails on fewer rows than its window. The other four analyzers return
  \<open>(3, None, None)\<close> on the same history.
\<close>

theorem adx_raises_on_short_history:
  "analyze_adx lib_ta_lengths (flat_bars 10) = Inl ValueError
   \<and> analyze_ema lib_ta_lengths (flat_bars 10) = Inr (3, None, None)
   \<and> analyze_rsi lib_ta_lengths (flat_bars 10) = Inr (3, None, None)
   \<and> analyze_donchian lib_ta_lengths (flat_bars 10) = Inr (3, None, None)
   \<and> analyze_volume lib_ta_lengths all_columns (flat_bars 10) = Inr (3, None, None)"
  by (simp add: analyze_adx_def analyze_ema_def analyze_rsi_def analyze_donchian_def
      analyze_volume_def lib_ta_lengths_def lib_quiet_def const_series_def ta_constructor_def
      all_columns_def)

text \<open>
  The decision table of the ADX analyzer, where the library returns its three series
  over the rows of the history: 5 with entry = latest close when ADX > 25 and
  +DI > -DI, 1 with exit = latest close when ADX > 25 and -DI >= +DI, and 3 with both
  prices null whenever ADX <= 25.
\<close>

lemma adx_decision_table:
  assumes "length data \<ge> 14"
    and "adx L 14 data = Inr adx_value" and "length adx_value = length data"
    and "adx_pos L 14 data = Inr pdi" and "length pdi = length data"
    and "adx_neg L 14 data = Inr ndi" and "length ndi = length data"
  shows "(gt_f (last adx_value) (Fin 25) \<and> gt_f (last pdi) (last ndi)
            \<longrightarrow> analyze_adx L data = Inr (5, Some (Close (last data)), None))
       \<and> (gt_f (last adx_value) (Fin 25) \<and> ge_f (last ndi) (last pdi)
            \<longrightarrow> analyze_adx L data = Inr (1, None, Some (Close (last data))))
       \<and> (le_f (last adx_value) (Fin 25)
            \<longrightarrow> analyze_adx L data = Inr (3, None, None))"
proof -
  from assms have ne: "data \<noteq> []" "adx_value \<noteq> []" "pdi \<noteq> []" "ndi \<noteq> []"
    by auto
  then have il: "iloc adx_value (-1) = Inr (last adx_value)" "iloc pdi (-1) = Inr (last pdi)"
    "iloc ndi (-1) = Inr (last ndi)" "iloc (map Close data) (-1) = Inr (Close (last data))"
    by (simp_all add: iloc_last last_map)
  have excl: "ge_f n p \<Longrightarrow> \<not> gt_f p n" for n p
    by (cases n; cases p) auto
  have excl2: "le_f a (Fin 25) \<Longrightarrow> \<not> gt_f a (Fin 25)" for a
    by (cases a) auto
  show ?thesis
    using assms(1) excl [of "last ndi" "last pdi"] excl2 [of "last adx_value"]
    by (auto simp: analyze_adx_def assms(2,4,6) il gtE_def ltE_def enter_at_def exit_at_def)
qed

lemma adx_decision_table_example:
  "analyze_adx (lib_adx_const 30 20 10) (flat_bars 28) = Inr (5, Some 100, None)
   \<and> analyze_adx (lib_adx_const 30 10 10) (flat_bars 28) = Inr (1, None, Some 100)
   \<and> analyze_adx (lib_adx_const 25 20 10) (flat_bars 28) = Inr (3, None, None)
   \<and> analyze_adx (lib_adx_const 22 20 10) (flat_bars 28) = Inr (3, None, None)"
  using adx_decision_table [of "flat_bars 28" "lib_adx_const 30 20 10" "replicate 28 (Fin 30)"
      "replicate 28 (Fin 20)" "replicate 28 (Fin 10)"]
    adx_decision_table [of "flat_bars 28" "lib_adx_const 30 10 10" "replicate 28 (Fin 30)"
      "replicate 28 (Fin 10)" "replicate 28 (Fin 10)"]
    adx_decision_table [of "flat_bars 28" "lib_adx_const 25 20 10" "replicate 28 (Fin 25)"
      "replicate 28 (Fin 20)" "replicate 28 (Fin 10)"]
    adx_decision_table [of "flat_bars 28" "lib_adx_const 22 20 10" "replicate 28 (Fin 22)"
      "replicate 28 (Fin 20)" "replicate 28 (Fin 10)"]
  by (simp add: lib_adx_const_def lib_quiet_def const_series_def last_flat_bars flat_bar_def)

text \<open>
  C7 (for every history of at least 14 bars the ADX analyzer returns one of the three
  results of the decision table) does not hold on a history of 14 to 27 bars: the ADX
  series is computed at line 104, before the guard of line 108, and the library needs
  28 rows for it, so the analyzer raises \<open>IndexError\<close> and returns no result.
\<close>

theorem adx_raises_below_28_rows:
  "analyze_adx lib_ta_lengths (flat_bars 14) = Inl IndexError
   \<and> analyze_adx lib_ta_lengths (flat_bars 27) = Inl IndexError"
  by (simp add: analyze_adx_def lib_ta_lengths_def lib_quiet_def ta_constructor_def)

section \<open>Backtest simulator: one period\<close>

lemmas bt_defs = backtest_def initial_state_def min_date_def max_date_def backtest_step_def
  get_best_stock_def sort_values_desc_def falsy_def py_str_def get_stock_data_def
  frame_empty_def frame_rows_def enter_or_switch_def open_at_def iloc_def loc_slice_def
  stop_loss_exit_def reevaluate_def Let_def all_columns_def day_bar_def

lemmas scen1 = table1_def folder1_def params1_def entered_def rows_A1_def rows_B1_def

lemmas scen2 = table2_def folder2_def params2_def entered_def


lemma bindE_eq_Inr: "bindE m f = Inr r \<longleftrightarrow> (\<exists>v. m = Inr v \<and> f v = Inr r)"
  by (cases m) simp_all

lemma monitor_find:
  "monitor P days (s, sd) =
     (case first_breach P s days of None \<Rightarrow> Inr (s, sd) | Some day \<Rightarrow> stop_loss_exit P day s)"
  by (induction days) (simp_all add: first_breach_def stop_price_def)

lemma stop_loss_exit_Inr:
  "stop_loss_exit P day s = Inr (s2, sd2) \<longleftrightarrow>
     (\<exists>price. sd2 = get_stock_data (py_str (fst (get_best_stock (Index day) (stock_scores P)))) (data_folder P)
        \<and> open_at sd2 (Index day) = Inr price
        \<and> s2 = s\<lparr>investment_log := investment_log s @ [stop_loss_entry P s day],
                  current_investment := current_shares s * stop_price P s,
                  entry_price := price,
                  current_shares := current_shares s * stop_price P s / price,
                  current_stock := fst (get_best_stock (Index day) (stock_scores P))\<rparr>)"
  by (auto simp: stop_loss_exit_def Let_def bindE_eq_Inr stop_loss_entry_def stop_price_def)

lemma enter_date: "enter_or_switch b sd s = Inr s1 \<Longrightarrow> current_date s1 = current_date s"
  by (auto simp: enter_or_switch_def bindE_eq_Inr split: if_splits)

lemma enter_log: "enter_or_switch b sd s = Inr s1 \<Longrightarrow> investment_log s1 = investment_log s"
  by (auto simp: enter_or_switch_def bindE_eq_Inr split: if_splits)

lemma monitor_date: "monitor P days (s, sd) = Inr (s2, sd2) \<Longrightarrow> current_date s2 = current_date s"
  by (auto simp: monitor_find stop_loss_exit_Inr split: option.splits)

lemma monitor_log:
  "monitor P days (s, sd) = Inr (s2, sd2) \<Longrightarrow>
   investment_log s2 = investment_log s @
     (case first_breach P s days of None \<Rightarrow> [] | Some day \<Rightarrow> [stop_loss_entry P s day])"
  by (auto simp: monitor_find stop_loss_exit_Inr split: option.splits)

lemma reevaluate_Inr:
  "reevaluate P d (s, sd) = Inr s' \<longleftrightarrow>
     (\<exists>price. open_at sd d = Inr price \<and>
        s' = s\<lparr>current_investment := current_shares s * price,
                investment_log := investment_log s @ [reevaluate_entry s d price],
                current_date := current_date s + reevaluation_period P\<rparr>)"
  by (auto simp: reevaluate_def bindE_eq_Inr reevaluate_entry_def)

lemma step_cases:
  assumes "backtest_step P s = Inr s'"
  shows "s' = s\<lparr>current_date := current_date s + reevaluation_period P\<rparr>
     \<or> (\<exists>s1 s2 sd sd2 price best.
          \<not> falsy best \<and> best = fst (get_best_stock (current_date s) (stock_scores P))
        \<and> sd = get_stock_data (py_str best) (data_folder P) \<and> \<not> frame_empty sd
        \<and> enter_or_switch best sd s = Inr s1
        \<and> monitor P (loc_slice sd (current_date s) (current_date s + reevaluation_period P)) (s1, sd) = Inr (s2, sd2)
        \<and> open_at sd2 (current_date s + reevaluation_period P) = Inr price
        \<and> s' = s2\<lparr>current_investment := current_shares s2 * price,
                investment_log := investment_log s2 @ [reevaluate_entry s2 (current_date s + reevaluation_period P) price],
                current_date := current_date s + reevaluation_period P\<rparr>)"
proof -
  define best where "best = fst (get_best_stock (current_date s) (stock_scores P))"
  define sd where "sd = get_stock_data (py_str best) (data_folder P)"
  define e where "e = current_date s + reevaluation_period P"
  show ?thesis
  proof (cases "falsy best \<or> frame_empty sd")
    case True
    with assms have "s' = s\<lparr>current_date := current_date s + reevaluation_period P\<rparr>"
      by (auto simp: backtest_step_def Let_def best_def sd_def split: if_splits)
    then show ?thesis by (rule disjI1)
  next
    case False
    with assms have "bindE (enter_or_switch best sd s) (\<lambda>s1.
        bindE (monitor P (loc_slice sd (current_date s) e) (s1, sd)) (\<lambda>st2. reevaluate P e st2)) = Inr s'"
      by (simp add: backtest_step_def Let_def best_def sd_def e_def)
    then obtain s1 st2 where s1: "enter_or_switch best sd s = Inr s1"
      and st2: "monitor P (loc_slice sd (current_date s) e) (s1, sd) = Inr st2"
      and re: "reevaluate P e st2 = Inr s'"
      by (auto simp: bindE_eq_Inr)
    obtain s2 sd2 where st2_eq: "st2 = (s2, sd2)" by (cases st2)
    from s1 have d1: "current_date s1 = current_date s" by (rule enter_date)
    from st2 st2_eq have d2: "current_date s2 = current_date s1" by (auto dest: monitor_date)
    from re st2_eq obtain price where pr: "open_at sd2 e = Inr price"
      and s': "s' = s2\<lparr>current_investment := current_shares s2 * price,
                investment_log := investment_log s2 @ [reevaluate_entry s2 e price],
                current_date := current_date s2 + reevaluation_period P\<rparr>"
      by (auto simp: reevaluate_Inr)
    from False s1 st2 st2_eq pr s' d1 d2 show ?thesis
      unfolding best_def sd_def e_def by (intro disjI2 exI) auto
  qed
qed

lemma step_date:
  "backtest_step P s = Inr s' \<Longrightarrow> current_date s' = current_date s + reevaluation_period P"
  by (drule step_cases) auto

lemma open_at_absent: "date \<notin> Index ` set bars \<Longrightarrow> open_at (Some bars) date = Inl IndexError"
proof -
  assume "date \<notin> Index ` set bars"
  then have "filter (\<lambda>b. Index b = date) bars = []"
    by (auto simp: filter_empty_conv)
  then show ?thesis by (simp add: open_at_def iloc_def)
qed

text \<open>
  The scan of the days of a period, where the opening price of the instrument selected
  after the breach is found: the first day within the period whose low is at or below
  entry price * (1 - stop loss) ends the scan, whatever the rows before the period and
  the later rows are. The position is closed at that stop price, the portfolio value
  becomes shares * stop price, a \<open>Stop-Loss\<close> entry dated that day is appended, and the
  instrument selected for that day is entered at that day's opening price.
\<close>

lemma loc_slice_split:
  assumes "frame_rows sd = pre @ day # post" and "a \<le> Index day" and "Index day \<le> b"
  shows "loc_slice sd a b
           = filter (\<lambda>d. a \<le> Index d \<and> Index d \<le> b) pre @ day
               # filter (\<lambda>d. a \<le> Index d \<and> Index d \<le> b) post"
  using assms by (simp add: loc_slice_def)

lemma first_breach_append:
  assumes "\<forall>d \<in> set xs. \<not> Low d \<le> stop_price P s" and "Low day \<le> stop_price P s"
  shows "first_breach P s (xs @ day # ys) = Some day"
  using assms by (induction xs) (simp_all add: first_breach_def)

lemma stop_loss_at_first_breach:
  assumes rows: "frame_rows sd = pre @ day # post"
    and period: "current_date s \<le> Index day"
      "Index day \<le> current_date s + reevaluation_period P"
    and before: "\<forall>d \<in> set pre. current_date s \<le> Index d
                   \<and> Index d \<le> current_date s + reevaluation_period P
                   \<longrightarrow> \<not> Low d \<le> entry_price s * (1 - stop_loss P)"
    and breach: "Low day \<le> entry_price s * (1 - stop_loss P)"
    and best: "fst (get_best_stock (Index day) (stock_scores P)) = best"
    and price: "open_at (get_stock_data (py_str best) (data_folder P)) (Index day) = Inr price"
  shows "monitor P (loc_slice sd (current_date s) (current_date s + reevaluation_period P)) (s, sd)
         = Inr (s\<lparr>investment_log := investment_log s @
                     [\<lparr>entry_Date = Index day, entry_Symbol = current_stock s,
                       Action = ''Stop-Loss'', Shares = current_shares s,
                       Exit_Price = entry_price s * (1 - stop_loss P),
                       Investment_Value = current_shares s * (entry_price s * (1 - stop_loss P))\<rparr>],
                   current_investment := current_shares s * (entry_price s * (1 - stop_loss P)),
                   entry_price := price,
                   current_shares := current_shares s * (entry_price s * (1 - stop_loss P)) / price,
                   current_stock := best\<rparr>,
                get_stock_data (py_str best) (data_folder P))"
proof -
  let ?a = "current_date s" and ?b = "current_date s + reevaluation_period P"
  let ?in = "\<lambda>d. ?a \<le> Index d \<and> Index d \<le> ?b"
  from rows period have slice: "loc_slice sd ?a ?b = filter ?in pre @ day # filter ?in post"
    by (rule loc_slice_split)
  from before have "\<forall>d \<in> set (filter ?in pre). \<not> Low d \<le> stop_price P s"
    by (auto simp: stop_price_def)
  moreover from breach have "Low day \<le> stop_price P s"
    by (simp add: stop_price_def)
  ultimately have "first_breach P s (filter ?in pre @ day # filter ?in post) = Some day"
    by (rule first_breach_append)
  with slice have "monitor P (loc_slice sd ?a ?b) (s, sd) = stop_loss_exit P day s"
    by (simp add: monitor_find)
  also from best price have "\<dots> = Inr (s\<lparr>investment_log := investment_log s @
                     [\<lparr>entry_Date = Index day, entry_Symbol = current_stock s,
                       Action = ''Stop-Loss'', Shares = current_shares s,
                       Exit_Price = entry_price s * (1 - stop_loss P),
                       Investment_Value = current_shares s * (entry_price s * (1 - stop_loss P))\<rparr>],
                   current_investment := current_shares s * (entry_price s * (1 - stop_loss P)),
                   entry_price := price,
                   current_shares := current_shares s * (entry_price s * (1 - stop_loss P)) / price,
                   current_stock := best\<rparr>,
                get_stock_data (py_str best) (data_folder P))"
    by (simp add: stop_loss_exit_def Let_def)
  finally show ?thesis .
qed

lemma stop_loss_at_first_breach_example:
  "monitor params1 (loc_slice (Some rows_A6) 5 19)
     (\<lparr>investment_log = [], current_investment = 50000, current_stock = Some ''A'',
       current_shares = 500, entry_price = 100, current_date = 5\<rparr>, Some rows_A6)
   = Inr (\<lparr>investment_log =
             [\<lparr>entry_Date = 10, entry_Symbol = Some ''A'', Action = ''Stop-Loss'',
               Shares = 500, Exit_Price = 95, Investment_Value = 47500\<rparr>],
           current_investment = 47500, current_stock = Some ''B'', current_shares = 950,
           entry_price = 50, current_date = 5\<rparr>, Some rows_B1)"
proof -
  let ?s = "\<lparr>investment_log = [], current_investment = 50000, current_stock = Some ''A'',
       current_shares = 500, entry_price = 100, current_date = 5\<rparr>"
  have rows: "frame_rows (Some rows_A6) = [day_bar 1 100 80] @ day_bar 10 96 90
      # [day_bar 15 92 91, day_bar 25 90 10]"
    by (simp add: frame_rows_def rows_A6_def)
  have period: "current_date ?s \<le> Index (day_bar 10 96 90)"
    "Index (day_bar 10 96 90) \<le> current_date ?s + reevaluation_period params1"
    by (simp_all add: day_bar_def params1_def)
  have before: "\<forall>d \<in> set [day_bar 1 100 80]. current_date ?s \<le> Index d
                   \<and> Index d \<le> current_date ?s + reevaluation_period params1
                   \<longrightarrow> \<not> Low d \<le> entry_price ?s * (1 - stop_loss params1)"
    by (simp add: day_bar_def)
  have breach: "Low (day_bar 10 96 90) \<le> entry_price ?s * (1 - stop_loss params1)"
    by (simp add: day_bar_def params1_def)
  have best: "fst (get_best_stock (Index (day_bar 10 96 90)) (stock_scores params1)) = Some ''B''"
    by (simp add: bt_defs scen1)
  have price: "open_at (get_stock_data (py_str (Some ''B'')) (data_folder params1))
      (Index (day_bar 10 96 90)) = Inr 50"
    by (simp add: bt_defs scen1)
  from stop_loss_at_first_breach [OF rows period before breach best price] show ?thesis
    by (simp add: bt_defs scen1)
qed

section \<open>Backtest simulator: the loop\<close>

lemma step_actions:
  assumes "backtest_step P s = Inr s'"
    and "set (map Action (investment_log s)) \<subseteq> ledger_actions"
  shows "set (map Action (investment_log s')) \<subseteq> ledger_actions"
proof -
  from assms(1) show ?thesis
  proof (rule step_cases [THEN disjE])
    assume "s' = s\<lparr>current_date := current_date s + reevaluation_period P\<rparr>"
    with assms(2) show ?thesis by simp
  next
    assume "\<exists>s1 s2 sd sd2 price best.
          \<not> falsy best \<and> best = fst (get_best_stock (current_date s) (stock_scores P))
        \<and> sd = get_stock_data (py_str best) (data_folder P) \<and> \<not> frame_empty sd
        \<and> enter_or_switch best sd s = Inr s1
        \<and> monitor P (loc_slice sd (current_date s) (current_date s + reevaluation_period P)) (s1, sd) = Inr (s2, sd2)
        \<and> open_at sd2 (current_date s + reevaluation_period P) = Inr price
        \<and> s' = s2\<lparr>current_investment := current_shares s2 * price,
                investment_log := investment_log s2 @ [reevaluate_entry s2 (current_date s + reevaluation_period P) price],
                current_date := current_date s + reevaluation_period P\<rparr>"
    then obtain s1 s2 sd sd2 price best where
      en: "enter_or_switch best sd s = Inr s1"
      and mo: "monitor P (loc_slice sd (current_date s) (current_date s + reevaluation_period P)) (s1, sd) = Inr (s2, sd2)"
      and s': "s' = s2\<lparr>current_investment := current_shares s2 * price,
                investment_log := investment_log s2 @ [reevaluate_entry s2 (current_date s + reevaluation_period P) price],
                current_date := current_date s + reevaluation_period P\<rparr>"
      by blast
    from en have l1: "investment_log s1 = investment_log s" by (rule enter_log)
    from mo have l2: "investment_log s2 = investment_log s1 @
       (case first_breach P s1 (loc_slice sd (current_date s) (current_date s + reevaluation_period P))
          of None \<Rightarrow> [] | Some day \<Rightarrow> [stop_loss_entry P s1 day])"
      by (rule monitor_log)
    from assms(2) show ?thesis
      by (auto simp: s' l1 l2 ledger_actions_def reevaluate_entry_def stop_loss_entry_def
          split: option.splits)
  qed
qed

lemma loop_actions:
  assumes "backtest_loop P s = Some (Inr s')"
    and "set (map Action (investment_log s)) \<subseteq> ledger_actions"
  shows "set (map Action (investment_log s')) \<subseteq> ledger_actions"
proof -
  let ?Q = "\<lambda>(P :: bt_params, s :: bt_state) (r :: error + bt_state). \<forall>s'. r = Inr s' \<longrightarrow>
        set (map Action (investment_log s)) \<subseteq> ledger_actions
         \<longrightarrow> set (map Action (investment_log s')) \<subseteq> ledger_actions"
  have "?Q (P, s) (Inr s')"
  proof (rule backtest_loop.raw_induct [where Pa = ?Q, OF _ assms(1)])
    fix f P s r
    assume IH: "\<And>P s r. f P s = Some r \<Longrightarrow> ?Q (P, s) r"
      and eq: "(if current_date s \<le> max_date (stock_scores P) then
                 (case backtest_step P s of Inl e \<Rightarrow> Some (Inl e) | Inr s' \<Rightarrow> f P s')
               else Some (Inr s)) = Some r"
    show "?Q (P, s) r"
    proof (cases "current_date s \<le> max_date (stock_scores P)")
      case False
      with eq show ?thesis by auto
    next
      case True
      show ?thesis
      proof (cases "backtest_step P s")
        case (Inl e)
        with True eq show ?thesis by auto
      next
        case (Inr s1)
        with True eq have "f P s1 = Some r" by simp
        from IH [OF this] step_actions [OF Inr] show ?thesis by auto
      qed
    qed
  qed
  with assms(2) show ?thesis by simp
qed

lemma loop_terminates:
  assumes "0 < reevaluation_period P"
  shows "\<exists>r. backtest_loop P s = Some r"
proof (induction "nat (max_date (stock_scores P) - current_date s + 1)" arbitrary: s
    rule: less_induct)
  case less
  show ?case
  proof (cases "current_date s \<le> max_date (stock_scores P)")
    case False
    then show ?thesis by (simp add: backtest_loop.simps [of P s])
  next
    case True
    show ?thesis
    proof (cases "backtest_step P s")
      case (Inl e)
      with True show ?thesis by (simp add: backtest_loop.simps [of P s])
    next
      case (Inr s1)
      then have "current_date s1 = current_date s + reevaluation_period P"
        by (rule step_date)
      with assms True have "nat (max_date (stock_scores P) - current_date s1 + 1)
          < nat (max_date (stock_scores P) - current_date s + 1)"
        by simp
      then obtain r where "backtest_loop P s1 = Some r"
        using less by blast
      with True Inr show ?thesis by (simp add: backtest_loop.simps [of P s])
    qed
  qed
qed

lemma backtest_terminates:
  "0 < period \<Longrightarrow> \<exists>r. backtest table initial_investment sl period folder = Some r"
  using loop_terminates [of "\<lparr>stock_scores = table, stop_loss = sl,
              reevaluation_period = period, data_folder = folder\<rparr>" "initial_state table initial_investment"]
  by (auto simp: backtest_def)

section \<open>Position selector and the step without a candidate\<close>

text \<open>
  C9. For a date with no row in the score table the selector returns \<open>(None, None)\<close>,
  and the simulator, at the start of a period on such a date, advances the current
  date by the reevaluation period and changes nothing else: no ledger entry, the same
  portfolio value, the same position.
\<close>

theorem no_candidate_advances:
  "((\<forall>r \<in> set table. Date r \<noteq> date) \<longrightarrow> get_best_stock date table = (None, None))
   \<and> ((\<forall>r \<in> set (stock_scores P). Date r \<noteq> current_date s)
      \<longrightarrow> backtest_step P s = Inr (s\<lparr>current_date := current_date s + reevaluation_period P\<rparr>))"
proof -
  have sel: "get_best_stock d t = (None, None)" if "\<forall>r \<in> set t. Date r \<noteq> d" for d t
  proof -
    from that have "filter (\<lambda>r. Date r = d) t = []"
      by (simp add: filter_empty_conv)
    then show ?thesis by (simp add: get_best_stock_def)
  qed
  show ?thesis
    by (auto simp: sel backtest_step_def falsy_def)
qed

theorem no_candidate_advances_witness:
  "get_best_stock 5 table1 = (None, None)
   \<and> backtest_step params1
        \<lparr>investment_log = [], current_investment = 50000, current_stock = Some ''A'',
         current_shares = 500, entry_price = 100, current_date = 5\<rparr>
     = Inr \<lparr>investment_log = [], current_investment = 50000, current_stock = Some ''A'',
            current_shares = 500, entry_price = 100, current_date = 19\<rparr>"
  using no_candidate_advances [of table1 5 params1
      "\<lparr>investment_log = [], current_investment = 50000, current_stock = Some ''A'',
         current_shares = 500, entry_price = 100, current_date = 5\<rparr>"]
  by (simp add: table1_def params1_def)

section \<open>Backtest simulator: claims\<close>

text \<open>
  C2, as the code has it. When the selected instrument differs from the instrument
  held (also when nothing is held), the simulator opens the new position at that
  date's opening price with shares = portfolio value / entry price; it writes no
  ledger entry for this (it prints a message), and the ledger of a run holds
  \<open>Stop-Loss\<close> and \<open>Reevaluate\<close> entries only.
\<close>

theorem switch_without_ledger_entry:
  "(current_stock s \<noteq> best \<and> open_at sd (current_date s) = Inr price
      \<longrightarrow> enter_or_switch best sd s =
            Inr (s\<lparr>entry_price := price, current_shares := current_investment s / price,
                   current_stock := best\<rparr>))
   \<and> (backtest table initial_investment sl period folder = Some (Inr ledger)
      \<longrightarrow> set (map Action ledger) \<subseteq> {''Stop-Loss'', ''Reevaluate''})"
proof (intro conjI impI)
  assume "current_stock s \<noteq> best \<and> open_at sd (current_date s) = Inr price"
  then show "enter_or_switch best sd s =
            Inr (s\<lparr>entry_price := price, current_shares := current_investment s / price,
                   current_stock := best\<rparr>)"
    by (simp add: enter_or_switch_def)
next
  assume run: "backtest table initial_investment sl period folder = Some (Inr ledger)"
  let ?P = "\<lparr>stock_scores = table, stop_loss = sl, reevaluation_period = period,
             data_folder = folder\<rparr>"
  show "set (map Action ledger) \<subseteq> {''Stop-Loss'', ''Reevaluate''}"
  proof (cases "table = [] \<or> period = 0")
    case True
    with run have "ledger = []" by (auto simp: backtest_def split: if_splits)
    then show ?thesis by simp
  next
    case False
    with run obtain r where r: "backtest_loop ?P (initial_state table initial_investment) = Some r"
      and m: "map_sum id investment_log r = Inr ledger"
      by (auto simp: backtest_def)
    from m obtain s' where "r = Inr s'" and led: "ledger = investment_log s'"
      by (cases r) auto
    with r have loop: "backtest_loop ?P (initial_state table initial_investment) = Some (Inr s')"
      by simp
    have "set (map Action (investment_log (initial_state table initial_investment))) \<subseteq> ledger_actions"
      by (simp add: initial_state_def)
    with loop have "set (map Action (investment_log s')) \<subseteq> ledger_actions"
      by (rule loop_actions)
    with led show ?thesis by (simp add: ledger_actions_def)
  qed
qed

theorem switch_without_ledger_entry_witness:
  "enter_or_switch (Some ''B'') (get_stock_data ''B'' folder2)
       \<lparr>investment_log = [], current_investment = 55000, current_stock = Some ''A'',
        current_shares = 500, entry_price = 100, current_date = 15\<rparr>
     = Inr \<lparr>investment_log = [], current_investment = 55000, current_stock = Some ''B'',
            current_shares = 1100, entry_price = 50, current_date = 15\<rparr>
   \<and> set (map Action
        [\<lparr>entry_Date = 15, entry_Symbol = Some ''A'', Action = ''Reevaluate'',
          Shares = 500, Exit_Price = 110, Investment_Value = 55000\<rparr>,
         \<lparr>entry_Date = 29, entry_Symbol = Some ''B'', Action = ''Reevaluate'',
          Shares = 1100, Exit_Price = 60, Investment_Value = 66000\<rparr>])
       \<subseteq> {''Stop-Loss'', ''Reevaluate''}"
proof -
  let ?s = "\<lparr>investment_log = [], current_investment = 55000, current_stock = Some ''A'',
        current_shares = 500, entry_price = 100, current_date = 15\<rparr>"
  have sw: "current_stock ?s \<noteq> Some ''B''
      \<and> open_at (get_stock_data ''B'' folder2) (current_date ?s) = Inr 50"
    by (simp add: bt_defs scen2)
  have run: "backtest table2 50000 (5 / 100) 14 folder2 =
     Some (Inr [\<lparr>entry_Date = 15, entry_Symbol = Some ''A'', Action = ''Reevaluate'',
                  Shares = 500, Exit_Price = 110, Investment_Value = 55000\<rparr>,
                \<lparr>entry_Date = 29, entry_Symbol = Some ''B'', Action = ''Reevaluate'',
                  Shares = 1100, Exit_Price = 60, Investment_Value = 66000\<rparr>])"
    by (simp add: bt_defs scen2 backtest_loop.simps)
  from switch_without_ledger_entry [of ?s "Some ''B''" "get_stock_data ''B'' folder2" 50
      table2 50000 "5 / 100" 14 folder2] sw run
  show ?thesis by simp
qed

text \<open>
  C2 as stated fails: in this run the simulator enters A on day 1 and switches to B on
  day 15, and the ledger it returns holds two \<open>Reevaluate\<close> entries and no \<open>Switch\<close>
  entry.
\<close>

theorem switch_leaves_no_entry:
  "enter_or_switch (Some ''A'') (get_stock_data ''A'' folder2) (initial_state table2 50000)
     = Inr \<lparr>investment_log = [], current_investment = 50000, current_stock = Some ''A'',
            current_shares = 500, entry_price = 100, current_date = 1\<rparr>
   \<and> backtest table2 50000 (5 / 100) 14 folder2 =
     Some (Inr [\<lparr>entry_Date = 15, entry_Symbol = Some ''A'', Action = ''Reevaluate'',
                  Shares = 500, Exit_Price = 110, Investment_Value = 55000\<rparr>,
                \<lparr>entry_Date = 29, entry_Symbol = Some ''B'', Action = ''Reevaluate'',
                  Shares = 1100, Exit_Price = 60, Investment_Value = 66000\<rparr>])"
  by (simp add: bt_defs scen2 backtest_loop.simps)

text \<open>
  C6 (the first breach of the stop price appends a \<open>Stop-Loss\<close> entry, re-selects and
  opens a new position on the breach date) does not hold when the day of the breach
  has no row in the score table. The selector's \<open>(None, None)\<close> is used unchecked at
  lines 202 to 204: the file \<open>None.csv\<close> is not found, the lookup of \<open>Open\<close> in the
  empty frame raises \<open>KeyError\<close>, and the whole run ends with no ledger. Here A is
  entered on day 1 at 100 and its low is 90 on day 10, a day without a score row.
\<close>

theorem stop_loss_on_unscored_day_aborts:
  "backtest table_A 50000 (5 / 100) 14 folder_A1 = Some (Inl KeyError)"
  by (simp add: bt_defs table_A_def folder_A1_def rows_A1_def backtest_loop.simps)

text \<open>
  C1, as the code has it. Every period that reaches the scan of its days and ends
  without an exception appends a \<open>Reevaluate\<close> entry dated at the period's end,
  whether or not a stop-loss fired in it: the ledger grows by that entry alone when no
  day breached the stop price, and by a \<open>Stop-Loss\<close> entry dated at the first breach
  day followed by that \<open>Reevaluate\<close> entry otherwise.
\<close>

theorem ledger_after_step:
  assumes best: "fst (get_best_stock (current_date s) (stock_scores P)) = best" "\<not> falsy best"
    and data: "get_stock_data (py_str best) (data_folder P) = sd" "\<not> frame_empty sd"
    and enter: "enter_or_switch best sd s = Inr s1"
    and days: "loc_slice sd (current_date s) (current_date s + reevaluation_period P) = days"
    and mon: "monitor P days (s1, sd) = Inr (s2, sd2)"
    and reev: "open_at sd2 (current_date s + reevaluation_period P) = Inr price"
  shows "backtest_step P s =
           Inr (s2\<lparr>current_investment := current_shares s2 * price,
                   investment_log := investment_log s2 @
                     [reevaluate_entry s2 (current_date s + reevaluation_period P) price],
                   current_date := current_date s + reevaluation_period P\<rparr>)
       \<and> investment_log s2 = investment_log s @
           (case first_breach P s1 days of None \<Rightarrow> []
            | Some day \<Rightarrow> [stop_loss_entry P s1 day])"
proof -
  from enter have d1: "current_date s1 = current_date s" and l1: "investment_log s1 = investment_log s"
    by (rule enter_date, rule enter_log)
  from mon have d2: "current_date s2 = current_date s1"
    and l2: "investment_log s2 = investment_log s1 @
           (case first_breach P s1 days of None \<Rightarrow> []
            | Some day \<Rightarrow> [stop_loss_entry P s1 day])"
    by (rule monitor_date, rule monitor_log)
  have "reevaluate P (current_date s + reevaluation_period P) (s2, sd2) =
      Inr (s2\<lparr>current_investment := current_shares s2 * price,
                   investment_log := investment_log s2 @
                     [reevaluate_entry s2 (current_date s + reevaluation_period P) price],
                   current_date := current_date s + reevaluation_period P\<rparr>)"
    using reev d1 d2 by (simp add: reevaluate_Inr)
  with best data enter days mon have "backtest_step P s =
           Inr (s2\<lparr>current_investment := current_shares s2 * price,
                   investment_log := investment_log s2 @
                     [reevaluate_entry s2 (current_date s + reevaluation_period P) price],
                   current_date := current_date s + reevaluation_period P\<rparr>)"
    by (simp add: backtest_step_def Let_def)
  with l1 l2 show ?thesis by simp
qed

theorem ledger_after_step_witness:
  "backtest_step params1 (initial_state table1 50000) =
     Inr \<lparr>investment_log =
            [\<lparr>entry_Date = 10, entry_Symbol = Some ''A'', Action = ''Stop-Loss'',
              Shares = 500, Exit_Price = 95, Investment_Value = 47500\<rparr>,
             \<lparr>entry_Date = 15, entry_Symbol = Some ''B'', Action = ''Reevaluate'',
              Shares = 950, Exit_Price = 55, Investment_Value = 52250\<rparr>],
          current_investment = 52250, current_stock = Some ''B'', current_shares = 950,
          entry_price = 50, current_date = 15\<rparr>"
proof -
  let ?s = "initial_state table1 50000"
  let ?s1 = "entered ?s ''A'' 100 500"
  let ?s2 = "\<lparr>investment_log =
             [\<lparr>entry_Date = 10, entry_Symbol = Some ''A'', Action = ''Stop-Loss'',
               Shares = 500, Exit_Price = 95, Investment_Value = 47500\<rparr>],
           current_investment = 47500, current_stock = Some ''B'', current_shares = 950,
           entry_price = 50, current_date = 1\<rparr>"
  have cd: "current_date ?s = 1" "reevaluation_period params1 = 14"
    by (simp_all add: bt_defs scen1)
  have best: "fst (get_best_stock (current_date ?s) (stock_scores params1)) = Some ''A''"
    by (simp add: bt_defs scen1)
  have nf: "\<not> falsy (Some ''A'')"
    by (simp add: bt_defs scen1)
  have data: "get_stock_data (py_str (Some ''A'')) (data_folder params1) = Some rows_A1"
    by (simp add: bt_defs scen1)
  have ne: "\<not> frame_empty (Some rows_A1)"
    by (simp add: bt_defs scen1)
  have enter: "enter_or_switch (Some ''A'') (Some rows_A1) ?s = Inr ?s1"
    by (simp add: bt_defs scen1)
  have days: "loc_slice (Some rows_A1) (current_date ?s) (current_date ?s + reevaluation_period params1)
      = loc_slice (Some rows_A1) 1 15"
    by (simp add: bt_defs scen1)
  have mon: "monitor params1 (loc_slice (Some rows_A1) 1 15) (?s1, Some rows_A1) = Inr (?s2, Some rows_B1)"
    by (simp add: bt_defs scen1)
  have reev: "open_at (Some rows_B1) (current_date ?s + reevaluation_period params1) = Inr 55"
    by (simp add: bt_defs scen1)
  from ledger_after_step [OF best nf data ne enter days mon reev] show ?thesis
    by (simp add: bt_defs scen1 reevaluate_entry_def)
qed

text \<open>
  C1 as stated fails: in this run the stop-loss fires on day 10 of the period from
  day 1 to day 15, and the ledger holds the \<open>Stop-Loss\<close> entry of day 10 followed by a
  \<open>Reevaluate\<close> entry of day 15 for the same period.
\<close>

theorem stop_loss_then_reevaluate:
  "backtest table1 50000 (5 / 100) 14 folder1 =
     Some (Inr [\<lparr>entry_Date = 10, entry_Symbol = Some ''A'', Action = ''Stop-Loss'',
                  Shares = 500, Exit_Price = 95, Investment_Value = 47500\<rparr>,
                \<lparr>entry_Date = 15, entry_Symbol = Some ''B'', Action = ''Reevaluate'',
                  Shares = 950, Exit_Price = 55, Investment_Value = 52250\<rparr>])"
  by (simp add: bt_defs table1_def folder1_def backtest_loop.simps)

text \<open>
  C10. An opening-price lookup on a date that the frame does not hold raises
  \<open>IndexError\<close> and ends the whole loop with that exception: at the entry date when the
  simulator switches, at the period's end date in the frame held after the scan, and
  at the breach date in the frame of the instrument selected after a stop-loss.
\<close>

theorem price_lookup_aborts:
  assumes guard: "current_date s \<le> max_date (stock_scores P)"
    and best: "fst (get_best_stock (current_date s) (stock_scores P)) = best" "\<not> falsy best"
    and data: "get_stock_data (py_str best) (data_folder P) = Some bars" "bars \<noteq> []"
  shows "(current_stock s \<noteq> best \<and> current_date s \<notin> Index ` set bars
            \<longrightarrow> backtest_loop P s = Some (Inl IndexError))
       \<and> (\<forall>s1 s2 bars2.
             enter_or_switch best (Some bars) s = Inr s1
           \<and> monitor P (loc_slice (Some bars) (current_date s)
                          (current_date s + reevaluation_period P)) (s1, Some bars)
               = Inr (s2, Some bars2)
           \<and> current_date s + reevaluation_period P \<notin> Index ` set bars2
            \<longrightarrow> backtest_loop P s = Some (Inl IndexError))
       \<and> (\<forall>s1 day best2 bars2.
             enter_or_switch best (Some bars) s = Inr s1
           \<and> first_breach P s1 (loc_slice (Some bars) (current_date s)
                          (current_date s + reevaluation_period P)) = Some day
           \<and> fst (get_best_stock (Index day) (stock_scores P)) = best2
           \<and> get_stock_data (py_str best2) (data_folder P) = Some bars2
           \<and> Index day \<notin> Index ` set bars2
            \<longrightarrow> backtest_loop P s = Some (Inl IndexError))"
proof -
  from data(2) have ne: "\<not> frame_empty (Some bars)"
    by (simp add: frame_empty_def frame_rows_def)
  have step: "backtest_step P s =
      bindE (enter_or_switch best (Some bars) s) (\<lambda>s1.
      bindE (monitor P (loc_slice (Some bars) (current_date s)
               (current_date s + reevaluation_period P)) (s1, Some bars)) (\<lambda>st2.
      reevaluate P (current_date s + reevaluation_period P) st2))"
    using best data(1) ne by (simp add: backtest_step_def Let_def)
  have loop: "backtest_loop P s = Some (Inl e)" if "backtest_step P s = Inl e" for e
    using guard that by (simp add: backtest_loop.simps [of P s])
  have entry: "backtest_loop P s = Some (Inl IndexError)"
    if "current_stock s \<noteq> best" "current_date s \<notin> Index ` set bars"
  proof -
    from that have "enter_or_switch best (Some bars) s = Inl IndexError"
      by (simp add: enter_or_switch_def open_at_absent)
    then show ?thesis by (intro loop) (simp add: step)
  qed
  have reev: "backtest_loop P s = Some (Inl IndexError)"
    if "enter_or_switch best (Some bars) s = Inr s1"
      "monitor P (loc_slice (Some bars) (current_date s)
          (current_date s + reevaluation_period P)) (s1, Some bars) = Inr (s2, Some bars2)"
      "current_date s + reevaluation_period P \<notin> Index ` set bars2" for s1 s2 bars2
  proof -
    from that(3) have "reevaluate P (current_date s + reevaluation_period P) (s2, Some bars2)
        = Inl IndexError"
      by (simp add: reevaluate_def open_at_absent)
    with that(1,2) show ?thesis by (intro loop) (simp add: step)
  qed
  have stop: "backtest_loop P s = Some (Inl IndexError)"
    if "enter_or_switch best (Some bars) s = Inr s1"
      "first_breach P s1 (loc_slice (Some bars) (current_date s)
          (current_date s + reevaluation_period P)) = Some day"
      "fst (get_best_stock (Index day) (stock_scores P)) = best2"
      "get_stock_data (py_str best2) (data_folder P) = Some bars2"
      "Index day \<notin> Index ` set bars2" for s1 day best2 bars2
  proof -
    from that(3,4,5) have "stop_loss_exit P day s1 = Inl IndexError"
      by (simp add: stop_loss_exit_def Let_def open_at_absent)
    with that(2) have "monitor P (loc_slice (Some bars) (current_date s)
          (current_date s + reevaluation_period P)) (s1, Some bars) = Inl IndexError"
      by (simp add: monitor_find)
    with that(1) show ?thesis by (intro loop) (simp add: step)
  qed
  from entry reev stop show ?thesis by blast
qed

theorem price_lookup_aborts_witness:
  "backtest table_A 50000 (5 / 100) 14 folder_no_entry = Some (Inl IndexError)
   \<and> backtest table_A 50000 (5 / 100) 14 folder_no_end = Some (Inl IndexError)
   \<and> backtest table1 50000 (5 / 100) 14 folder_no_breach_day = Some (Inl IndexError)"
proof -
  let ?s = "initial_state table_A 50000"
  let ?s3 = "initial_state table1 50000"
  let ?P1 = "\<lparr>stock_scores = table_A, stop_loss = 5 / 100, reevaluation_period = 14,
              data_folder = folder_no_entry\<rparr>"
  let ?P2 = "\<lparr>stock_scores = table_A, stop_loss = 5 / 100, reevaluation_period = 14,
              data_folder = folder_no_end\<rparr>"
  let ?P3 = "\<lparr>stock_scores = table1, stop_loss = 5 / 100, reevaluation_period = 14,
              data_folder = folder_no_breach_day\<rparr>"
  let ?bars1 = "[day_bar 2 100 99, day_bar 15 110 109]"
  let ?bars2 = "[day_bar 1 100 99, day_bar 16 110 109]"
  let ?bars3 = "[day_bar 1 100 99, day_bar 10 96 90, day_bar 15 92 91]"
  let ?barsB = "[day_bar 11 50 49, day_bar 15 55 54]"
  have a1: "current_date ?s \<le> max_date (stock_scores ?P1)"
    "fst (get_best_stock (current_date ?s) (stock_scores ?P1)) = Some ''A''"
    "\<not> falsy (Some ''A'')"
    "get_stock_data (py_str (Some ''A'')) (data_folder ?P1) = Some ?bars1"
    "?bars1 \<noteq> []"
    by (simp_all add: bt_defs table_A_def folder_no_entry_def)
  have c1: "current_stock ?s \<noteq> Some ''A'' \<and> current_date ?s \<notin> Index ` set ?bars1"
    by (simp add: bt_defs table_A_def)
  have a2: "current_date ?s \<le> max_date (stock_scores ?P2)"
    "fst (get_best_stock (current_date ?s) (stock_scores ?P2)) = Some ''A''"
    "\<not> falsy (Some ''A'')"
    "get_stock_data (py_str (Some ''A'')) (data_folder ?P2) = Some ?bars2"
    "?bars2 \<noteq> []"
    by (simp_all add: bt_defs table_A_def folder_no_end_def)
  have c2: "enter_or_switch (Some ''A'') (Some ?bars2) ?s
        = Inr (entered ?s ''A'' 100 500)
      \<and> monitor ?P2 (loc_slice (Some ?bars2) (current_date ?s)
            (current_date ?s + reevaluation_period ?P2)) (entered ?s ''A'' 100 500, Some ?bars2)
        = Inr (entered ?s ''A'' 100 500, Some ?bars2)
      \<and> current_date ?s + reevaluation_period ?P2 \<notin> Index ` set ?bars2"
    by (simp add: bt_defs table_A_def entered_def)
  have a3: "current_date ?s3 \<le> max_date (stock_scores ?P3)"
    "fst (get_best_stock (current_date ?s3) (stock_scores ?P3)) = Some ''A''"
    "\<not> falsy (Some ''A'')"
    "get_stock_data (py_str (Some ''A'')) (data_folder ?P3) = Some ?bars3"
    "?bars3 \<noteq> []"
    by (simp_all add: bt_defs table1_def folder_no_breach_day_def)
  have c3: "enter_or_switch (Some ''A'') (Some ?bars3) ?s3
        = Inr (entered ?s3 ''A'' 100 500)
      \<and> first_breach ?P3 (entered ?s3 ''A'' 100 500)
            (loc_slice (Some ?bars3) (current_date ?s3)
               (current_date ?s3 + reevaluation_period ?P3)) = Some (day_bar 10 96 90)
      \<and> fst (get_best_stock (Index (day_bar 10 96 90)) (stock_scores ?P3)) = Some ''B''
      \<and> get_stock_data (py_str (Some ''B'')) (data_folder ?P3) = Some ?barsB
      \<and> Index (day_bar 10 96 90) \<notin> Index ` set ?barsB"
    by (simp add: bt_defs table1_def folder_no_breach_day_def entered_def first_breach_def
        stop_price_def)
  from price_lookup_aborts [OF a1] c1
  have r1: "backtest_loop ?P1 ?s = Some (Inl IndexError)" by blast
  from price_lookup_aborts [OF a2] c2
  have r2: "backtest_loop ?P2 ?s = Some (Inl IndexError)" by blast
  from price_lookup_aborts [OF a3] c3
  have r3: "backtest_loop ?P3 ?s3 = Some (Inl IndexError)" by blast
  from r1 r2 r3 show ?thesis
    by (simp add: backtest_def table_A_def table1_def)
qed

section \<open>Score table builder\<close>

lemma score_days_eq:
  "score_days L symbol cols stock_data days (table, printed) =
     (table @ concat (map (\<lambda>day. emitted L symbol cols stock_data (Index day)) days),
      printed @ concat (map (\<lambda>day. caught L symbol cols stock_data (Index day)) days))"
proof (induction days arbitrary: table printed)
  case Nil
  show ?case by simp
next
  case (Cons day days)
  show ?case
  proof (cases "score_on L symbol cols stock_data (Index day)")
    case (Inl e)
    then show ?thesis by (simp add: Cons.IH emitted_def caught_def)
  next
    case (Inr v)
    then show ?thesis by (cases v) (simp_all add: Cons.IH emitted_def caught_def)
  qed
qed

lemma score_files_eq:
  "list_all (\<lambda>symbol. get_stock_data symbol folder \<noteq> None) stock_files \<Longrightarrow>
   score_files L folder start_date end_date stock_files (table, printed) =
     Inr (table @ concat (map (instrument_rows L folder start_date end_date) stock_files),
          printed @ concat (map (instrument_errors L folder start_date end_date) stock_files))"
proof (induction stock_files arbitrary: table printed)
  case Nil
  show ?case by simp
next
  case (Cons symbol stock_files)
  from Cons.prems obtain bars where bars: "get_stock_data symbol folder = Some bars"
    and rest: "list_all (\<lambda>symbol. get_stock_data symbol folder \<noteq> None) stock_files"
    by auto
  show ?case
    by (simp add: bars Let_def Cons.IH [OF rest] score_days_eq instrument_rows_def
        instrument_errors_def range_frame_def frame_rows_def)
qed

lemma score_files_incomplete:
  "\<not> list_all (\<lambda>symbol. get_stock_data symbol folder \<noteq> None) stock_files \<Longrightarrow>
   score_files L folder start_date end_date stock_files st = Inl TypeError"
proof (induction stock_files arbitrary: st)
  case Nil
  then show ?case by simp
next
  case (Cons symbol stock_files)
  show ?case
  proof (cases "get_stock_data symbol folder")
    case None
    then show ?thesis by simp
  next
    case (Some bars)
    with Cons.prems have "\<not> list_all (\<lambda>symbol. get_stock_data symbol folder \<noteq> None) stock_files"
      by simp
    with Some show ?thesis by (simp add: Let_def Cons.IH)
  qed
qed

lemma build_eq:
  "complete_files folder \<Longrightarrow>
   load_and_score_stock_data L folder start_date end_date =
     Inr (concat (map (instrument_rows L folder start_date end_date) (map fst folder)),
          concat (map (instrument_errors L folder start_date end_date) (map fst folder)))"
  using score_files_eq [of folder "map fst folder" L start_date end_date "[]" "[]"]
  by (simp add: load_and_score_stock_data_def complete_files_def)

lemma build_returns_iff:
  "returns (load_and_score_stock_data L folder start_date end_date) \<longleftrightarrow> complete_files folder"
proof (cases "complete_files folder")
  case True
  then show ?thesis by (simp add: build_eq returns_def)
next
  case False
  then show ?thesis
    by (simp add: load_and_score_stock_data_def complete_files_def score_files_incomplete
        returns_def)
qed

lemma loc_upto_idem: "loc_upto (loc_upto stock_data date) date = loc_upto stock_data date"
  by (simp add: loc_upto_def)

lemma score_on_prefix:
  "score_on L symbol cols (loc_upto stock_data date) date = score_on L symbol cols stock_data date"
  by (simp add: score_on_def loc_upto_idem)

lemma bindE_signal_Inr:
  "bindE m (\<lambda>(a, b, c). f a) = Inr r \<longleftrightarrow> (\<exists>a b c. m = Inr (a, b, c) \<and> f a = Inr r)"
  by (cases m) auto

lemma score_on_row:
  "score_on L symbol cols stock_data date = Inr (Some row)
     \<Longrightarrow> Symbol row = symbol \<and> Date row = date \<and> 50 \<le> length (loc_upto stock_data date)"
  by (auto simp: score_on_def bindE_signal_Inr split: if_splits)

lemma emitted_iff:
  "row \<in> set (emitted L symbol cols stock_data date)
     \<longleftrightarrow> score_on L symbol cols stock_data date = Inr (Some row)"
  by (auto simp: emitted_def split: sum.splits option.splits)

lemma length_loc_upto_le: "length (loc_upto stock_data date) \<le> length stock_data"
  by (simp add: loc_upto_def)

lemma instrument_rows_iff:
  "row \<in> set (instrument_rows L folder start_date end_date symbol) \<longleftrightarrow>
     (\<exists>day \<in> set (range_frame folder start_date end_date symbol).
        score_on L symbol (frame_columns symbol folder)
          (range_frame folder start_date end_date symbol) (Index day) = Inr (Some row))"
proof -
  let ?sd = "range_frame folder start_date end_date symbol"
  have "length ?sd \<ge> 50" if "score_on L symbol cols ?sd d = Inr (Some row)" for d cols
    using score_on_row [OF that] length_loc_upto_le [of ?sd d] by simp
  then show ?thesis
    by (auto simp: instrument_rows_def emitted_iff)
qed

lemma table_row_iff:
  assumes run: "load_and_score_stock_data L folder start_date end_date = Inr (table, printed)"
    and sym: "symbol \<in> fst ` set folder"
  shows "(row \<in> set table \<and> Symbol row = symbol \<and> Date row = date)
      = (date \<in> Index ` set (range_frame folder start_date end_date symbol)
         \<and> 50 \<le> length (loc_upto (range_frame folder start_date end_date symbol) date)
         \<and> score_on L symbol (frame_columns symbol folder)
              (loc_upto (range_frame folder start_date end_date symbol) date) date
            = Inr (Some row))"
proof -
  from run have "returns (load_and_score_stock_data L folder start_date end_date)"
    by (simp add: returns_def)
  then have "complete_files folder" by (simp add: build_returns_iff)
  with run have table: "table = concat (map (instrument_rows L folder start_date end_date)
      (map fst folder))"
    by (simp add: build_eq)
  show ?thesis
  proof
    assume l: "row \<in> set table \<and> Symbol row = symbol \<and> Date row = date"
    then obtain symbol' where "symbol' \<in> fst ` set folder"
      and "row \<in> set (instrument_rows L folder start_date end_date symbol')"
      by (auto simp: table)
    then obtain day where day: "day \<in> set (range_frame folder start_date end_date symbol')"
      and sc: "score_on L symbol' (frame_columns symbol' folder)
          (range_frame folder start_date end_date symbol') (Index day) = Inr (Some row)"
      by (auto simp: instrument_rows_iff)
    from score_on_row [OF sc] l have "symbol' = symbol" "Index day = date"
      and "50 \<le> length (loc_upto (range_frame folder start_date end_date symbol) date)"
      by auto
    with day sc show "date \<in> Index ` set (range_frame folder start_date end_date symbol)
         \<and> 50 \<le> length (loc_upto (range_frame folder start_date end_date symbol) date)
         \<and> score_on L symbol (frame_columns symbol folder)
              (loc_upto (range_frame folder start_date end_date symbol) date) date
            = Inr (Some row)"
      by (auto simp: score_on_prefix)
  next
    assume r: "date \<in> Index ` set (range_frame folder start_date end_date symbol)
         \<and> 50 \<le> length (loc_upto (range_frame folder start_date end_date symbol) date)
         \<and> score_on L symbol (frame_columns symbol folder)
              (loc_upto (range_frame folder start_date end_date symbol) date) date
            = Inr (Some row)"
    then have sc: "score_on L symbol (frame_columns symbol folder)
        (range_frame folder start_date end_date symbol) date = Inr (Some row)"
      by (simp add: score_on_prefix)
    with r have "row \<in> set (instrument_rows L folder start_date end_date symbol)"
      by (auto simp: instrument_rows_iff)
    with sym have "row \<in> set table"
      by (auto simp: table)
    with score_on_row [OF sc] show "row \<in> set table \<and> Symbol row = symbol \<and> Date row = date"
      by simp
  qed
qed

text \<open>A file that lacks a required column ends the build: the filter of line 98 raises
  on its frame, outside the \<open>try\<close>.\<close>

lemma build_aborts_on_incomplete_file:
  "load_and_score_stock_data lib_quiet (flat_folder ''A'' 50 @ no_low_folder ''B'' 50) 1 50
     = Inl TypeError"
  by code_simp

text \<open>
  C4, as the code has it. The \<open>try\<close> stands inside the loop over the dates: an error
  raised while computing an instrument's score for one date is caught and printed,
  only that (instrument, date) pair is skipped, and the loop goes on with the later
  dates of the same instrument, keeping the rows already there. Over a folder whose
  files all have the required columns the build returns, instrument by instrument and
  date by date, the row of every date whose computation returned one, and the errors
  it printed.
\<close>

theorem build_isolates_dates:
  "score_days L symbol cols stock_data days (table, printed) =
     (table @ concat (map (\<lambda>day. emitted L symbol cols stock_data (Index day)) days),
      printed @ concat (map (\<lambda>day. caught L symbol cols stock_data (Index day)) days))
   \<and> (complete_files folder \<longrightarrow>
        load_and_score_stock_data L folder start_date end_date =
          Inr (concat (map (instrument_rows L folder start_date end_date) (map fst folder)),
               concat (map (instrument_errors L folder start_date end_date) (map fst folder))))"
  by (simp add: score_days_eq build_eq)

theorem build_isolates_dates_witness:
  "load_and_score_stock_data lib_fail_on_zero two_files 1 51 =
     Inr ([\<lparr>Date = 51, Symbol = ''A'', Score = 14 / 5\<rparr>,
           \<lparr>Date = 50, Symbol = ''B'', Score = 14 / 5\<rparr>],
          [(''A'', 50, ZeroDivisionError)])"
proof -
  have c: "complete_files two_files"
    by code_simp
  have r: "concat (map (instrument_rows lib_fail_on_zero two_files 1 51) (map fst two_files))
      = [\<lparr>Date = 51, Symbol = ''A'', Score = 14 / 5\<rparr>,
           \<lparr>Date = 50, Symbol = ''B'', Score = 14 / 5\<rparr>]"
    by code_simp
  have e: "concat (map (instrument_errors lib_fail_on_zero two_files 1 51) (map fst two_files))
      = [(''A'', 50, ZeroDivisionError)]"
    by code_simp
  from build_isolates_dates [where L = lib_fail_on_zero and folder = two_files and start_date = 1
      and end_date = 51]
    c r e
  show ?thesis by simp
qed

text \<open>
  C4 as stated fails: instrument A raises on day 50, the error is printed, and A is
  not skipped for the run: the table holds its row for day 51.
\<close>

theorem error_does_not_skip_instrument:
  "load_and_score_stock_data (lib_fail_at 50) (flat_folder ''A'' 51) 1 51 =
     Inr ([\<lparr>Date = 51, Symbol = ''A'', Score = 14 / 5\<rparr>], [(''A'', 50, ValueError)])"
  by code_simp

text \<open>
  C3, as the code has it. In a build that returns a table, for an instrument of the
  folder and a date, the table holds a row for the pair exactly when the date is the
  date of a bar of the instrument within the test range, at least 50 bars of the
  instrument lie within the range at or before that date, and the five analyzers
  return on those bars; the row is the one computed from those bars alone. So two
  folders whose files for the instrument have the same columns and the same bars
  within the range up to that date give the same rows for the pair, whatever the later
  bars are.
\<close>

theorem row_emitted_iff:
  "(load_and_score_stock_data L folder start_date end_date = Inr (table, printed)
      \<and> symbol \<in> fst ` set folder \<longrightarrow>
      (row \<in> set table \<and> Symbol row = symbol \<and> Date row = date)
      = (date \<in> Index ` set (range_frame folder start_date end_date symbol)
         \<and> 50 \<le> length (loc_upto (range_frame folder start_date end_date symbol) date)
         \<and> score_on L symbol (frame_columns symbol folder)
              (loc_upto (range_frame folder start_date end_date symbol) date) date
            = Inr (Some row)))
   \<and> (load_and_score_stock_data L folder start_date end_date = Inr (table, printed)
       \<and> load_and_score_stock_data L folder' start_date end_date = Inr (table', printed')
       \<and> symbol \<in> fst ` set folder \<and> symbol \<in> fst ` set folder'
       \<and> frame_columns symbol folder = frame_columns symbol folder'
       \<and> loc_upto (range_frame folder start_date end_date symbol) date
         = loc_upto (range_frame folder' start_date end_date symbol) date
      \<longrightarrow> {row \<in> set table. Symbol row = symbol \<and> Date row = date}
          = {row \<in> set table'. Symbol row = symbol \<and> Date row = date})"
proof (intro conjI impI)
  assume "load_and_score_stock_data L folder start_date end_date = Inr (table, printed)
      \<and> symbol \<in> fst ` set folder"
  then show "(row \<in> set table \<and> Symbol row = symbol \<and> Date row = date)
      = (date \<in> Index ` set (range_frame folder start_date end_date symbol)
         \<and> 50 \<le> length (loc_upto (range_frame folder start_date end_date symbol) date)
         \<and> score_on L symbol (frame_columns symbol folder)
              (loc_upto (range_frame folder start_date end_date symbol) date) date
            = Inr (Some row))"
    by (intro table_row_iff) simp_all
next
  assume a: "load_and_score_stock_data L folder start_date end_date = Inr (table, printed)
       \<and> load_and_score_stock_data L folder' start_date end_date = Inr (table', printed')
       \<and> symbol \<in> fst ` set folder \<and> symbol \<in> fst ` set folder'
       \<and> frame_columns symbol folder = frame_columns symbol folder'
       \<and> loc_upto (range_frame folder start_date end_date symbol) date
         = loc_upto (range_frame folder' start_date end_date symbol) date"
  have d: "date \<in> Index ` set sd \<longleftrightarrow> date \<in> Index ` set (loc_upto sd date)" for sd
    by (auto simp: loc_upto_def)
  from a have dd: "date \<in> Index ` set (range_frame folder start_date end_date symbol)
        \<longleftrightarrow> date \<in> Index ` set (range_frame folder' start_date end_date symbol)"
    using d [of "range_frame folder start_date end_date symbol"]
      d [of "range_frame folder' start_date end_date symbol"] by simp
  have "(r \<in> set table \<and> Symbol r = symbol \<and> Date r = date)
      = (r \<in> set table' \<and> Symbol r = symbol \<and> Date r = date)" for r
    using a table_row_iff [of L folder start_date end_date table printed symbol r date]
      table_row_iff [of L folder' start_date end_date table' printed' symbol r date] dd
    by simp
  then show "{row \<in> set table. Symbol row = symbol \<and> Date row = date}
          = {row \<in> set table'. Symbol row = symbol \<and> Date row = date}"
    by blast
qed

theorem row_emitted_iff_witness:
  "load_and_score_stock_data lib_close_ema (flat_folder ''A'' 60) 1 60 = Inr (flat_table, [])
   \<and> load_and_score_stock_data lib_close_ema (spiked_folder ''A'' 60 55) 1 60
     = Inr (spiked_table, [])
   \<and> \<lparr>Date = 55, Symbol = ''A'', Score = 14 / 5\<rparr> \<in> set flat_table
   \<and> {row \<in> set flat_table. Symbol row = ''A'' \<and> Date row = 55}
     = {row \<in> set spiked_table. Symbol row = ''A'' \<and> Date row = 55}"
proof -
  let ?F = "flat_folder ''A'' 60"
  let ?F' = "spiked_folder ''A'' 60 55"
  let ?row = "\<lparr>Date = 55, Symbol = ''A'', Score = 14 / 5\<rparr>"
  have run: "load_and_score_stock_data lib_close_ema ?F 1 60 = Inr (flat_table, [])"
    by code_simp
  have run': "load_and_score_stock_data lib_close_ema ?F' 1 60 = Inr (spiked_table, [])"
    by code_simp
  have a: "''A'' \<in> fst ` set ?F"
    by (simp add: flat_folder_def)
  have a': "''A'' \<in> fst ` set ?F'"
    by (simp add: spiked_folder_def)
  have cols: "frame_columns ''A'' ?F = frame_columns ''A'' ?F'"
    by (simp add: frame_columns_def flat_folder_def spiked_folder_def)
  have eq: "loc_upto (range_frame ?F 1 60 ''A'') 55 = loc_upto (range_frame ?F' 1 60 ''A'') 55"
    by code_simp
  have d: "55 \<in> Index ` set (range_frame ?F 1 60 ''A'')"
    by code_simp
  have n: "50 \<le> length (loc_upto (range_frame ?F 1 60 ''A'') 55)"
    by code_simp
  have sc: "score_on lib_close_ema ''A'' (frame_columns ''A'' ?F)
      (loc_upto (range_frame ?F 1 60 ''A'') 55) 55 = Inr (Some ?row)"
    by code_simp
  from row_emitted_iff [where L = lib_close_ema and folder = ?F and folder' = ?F'
      and start_date = 1 and end_date = 60 and table = flat_table and printed = "[]"
      and table' = spiked_table and printed' = "[]" and symbol = "''A''" and row = ?row
      and date = 55] run run' a a' cols eq d n sc
  show ?thesis by blast
qed

text \<open>
  C3 as stated fails. The instrument has 55 bars up to and including day 55, day 55
  lies in the test range from day 11 to day 60, and the table has no row for day 55:
  only 45 of those bars lie within the range. The one row is that of day 60.
  And with 50 bars within the range up to day 50, no row is emitted for day 50 when
  an analyzer raises there, as the Volume analyzer does on a file without a Volume
  column: the error is printed and the pair is dropped.
\<close>

theorem row_needs_fifty_bars_in_range:
  "length (loc_upto (flat_bars 60) 55) = 55
   \<and> load_and_score_stock_data lib_quiet (flat_folder ''A'' 60) 11 60
     = Inr ([\<lparr>Date = 60, Symbol = ''A'', Score = 14 / 5\<rparr>], [])
   \<and> length (loc_upto (in_range 1 50 (flat_bars 50)) 50) = 50
   \<and> load_and_score_stock_data lib_quiet (no_volume_folder ''A'' 50) 1 50
     = Inr ([], [(''A'', 50, KeyError)])"
  by code_simp

end
